theory Spec2Isabelle
  imports Complex_Main "HOL-Library.AList" "HOL-Library.Multiset" "HOL-Library.Word"
begin

section \<open>Go library functions used by the relay\<close>

text \<open>
  Strings are byte lists. The three functions of Go's \<^verbatim>\<open>strings\<close> package that
  \<^verbatim>\<open>market/util/marketutil.go\<close> calls are modelled on ASCII text: \<open>ToLower\<close> maps the
  letters A to Z to a to z and leaves every other byte alone, \<open>TrimSpace\<close> removes the
  six ASCII white-space bytes from both ends, and \<open>Split\<close> cuts at every occurrence of a
  one-byte separator, as \<^verbatim>\<open>strings.Split(s, "-")\<close> does.
\<close>

definition lower_char :: "char \<Rightarrow> char" where
  "lower_char c =
     (case map_of (zip ''ABCDEFGHIJKLMNOPQRSTUVWXYZ'' ''abcdefghijklmnopqrstuvwxyz'') c of
        Some d \<Rightarrow> d
      | None \<Rightarrow> c)"

definition ToLower :: "string \<Rightarrow> string" where
  "ToLower s = map lower_char s"

definition isSpace :: "char \<Rightarrow> bool" where
  "isSpace c = (c \<in> set [CHR 0x09, CHR 0x0A, CHR 0x0B, CHR 0x0C, CHR 0x0D, CHR '' ''])"

definition TrimSpace :: "string \<Rightarrow> string" where
  "TrimSpace s = rev (dropWhile isSpace (rev (dropWhile isSpace s)))"

fun Split :: "string \<Rightarrow> char \<Rightarrow> string list" where
  "Split [] sep = [[]]"
| "Split (c # cs) sep =
     (if c = sep then [] # Split cs sep
      else (case Split cs sep of [] \<Rightarrow> [[c]] | p # ps \<Rightarrow> (c # p) # ps))"

text \<open>
  \<^verbatim>\<open>fmt.Sprintf("%s-%s", x, y)\<close>: the two strings joined by one hyphen.
\<close>

definition hyphenate :: "string \<Rightarrow> string \<Rightarrow> string" where
  "hyphenate x y = x @ ''-'' @ y"

text \<open>
  \<^verbatim>\<open>big.Int.Int64\<close> returns the low 64 bits of the integer read as two's complement:
  the integer itself when it fits, a wrapped value otherwise.
\<close>

definition Int64 :: "int \<Rightarrow> int" where
  "Int64 v = sint (word_of_int v :: 64 word)"

text \<open>
  \<^verbatim>\<open>float64\<close> values are modelled by the real numbers they denote. Every float64
  operation is the exact operation followed by the rounding \<open>rnd\<close> of IEEE 754 binary64,
  which is a parameter of the model. \<open>rounding rnd\<close> collects what the proofs use of it:
  it is monotone, and it leaves a number \<open>m * 2 ^ e\<close> with \<open>\<bar>m\<bar> \<le> 2 ^ 53\<close> and
  \<open>e \<le> 970\<close> alone (such a number is a float64 value).
  A float64 division by zero does not fail in Go; it gives an infinity or a NaN, which are
  no real numbers: \<open>fdiv\<close> returns \<open>None\<close> there.
\<close>

definition rounding :: "(real \<Rightarrow> real) \<Rightarrow> bool" where
  "rounding rnd =
     (mono rnd \<and>
      (\<forall>m e. \<bar>m\<bar> \<le> (2::int) ^ 53 \<and> e \<le> (970::nat) \<longrightarrow>
         rnd (of_int m * 2 ^ e) = of_int m * 2 ^ e))"

text \<open>
  \<open>round_float64\<close> is the rounding of IEEE 754 binary64 itself, to the nearest number
  with 53 significant bits and to the even one of two nearest, for the numbers in the normal
  range of the format (it knows no overflow and no subnormal number). All amounts and
  prices of this program are in that range: an amount is at most \<open>2 ^ 63\<close> base units.
  It is the instance of \<open>rnd\<close> on concrete inputs.
\<close>

definition round_half_even :: "real \<Rightarrow> int" where
  "round_half_even x =
     (let n = \<lfloor>x\<rfloor>
      in if x - of_int n < 1 / 2 then n
         else if 1 / 2 < x - of_int n then n + 1
         else if even n then n else n + 1)"

definition float64_exponent :: "real \<Rightarrow> int" where
  "float64_exponent x = \<lfloor>log 2 \<bar>x\<bar>\<rfloor> - 52"

definition round_float64 :: "real \<Rightarrow> real" where
  "round_float64 x =
     (if x = 0 then 0
      else of_int (round_half_even (x / 2 powr of_int (float64_exponent x))) *
           2 powr of_int (float64_exponent x))"

definition float64_of_int64 :: "(real \<Rightarrow> real) \<Rightarrow> int \<Rightarrow> real" where
  "float64_of_int64 rnd v = rnd (of_int v)"

definition fdiv :: "(real \<Rightarrow> real) \<Rightarrow> real \<Rightarrow> real \<Rightarrow> real option" where
  "fdiv rnd x y = (if y = 0 then None else Some (rnd (x / y)))"

text \<open>
  Decimal text of an integer, as \<^verbatim>\<open>big.Int.MarshalText\<close> writes it and
  \<^verbatim>\<open>UnmarshalText\<close> reads it back: an optional minus sign and decimal digits. The
  functions below take the decoder as a parameter \<open>decode\<close> (the integer that
  \<^verbatim>\<open>UnmarshalText\<close> leaves in its receiver, whatever the text); \<open>decimal\<close> is the
  instance used on concrete inputs, and yields 0 on text that is no decimal numeral.
\<close>

definition digit_val :: "char \<Rightarrow> nat option" where
  "digit_val c = map_of (zip ''0123456789'' [0, 1, 2, 3, 4, 5, 6, 7, 8, 9]) c"

fun digits_val :: "nat \<Rightarrow> string \<Rightarrow> nat option" where
  "digits_val acc [] = Some acc"
| "digits_val acc (c # cs) =
     (case digit_val c of None \<Rightarrow> None | Some d \<Rightarrow> digits_val (10 * acc + d) cs)"

definition decimal :: "string \<Rightarrow> int" where
  "decimal s =
     (case s of
        [] \<Rightarrow> 0
      | c # cs \<Rightarrow>
          if c = CHR ''-'' then
            (case cs of [] \<Rightarrow> 0 | _ \<Rightarrow> (case digits_val 0 cs of None \<Rightarrow> 0 | Some n \<Rightarrow> - int n))
          else (case digits_val 0 s of None \<Rightarrow> 0 | Some n \<Rightarrow> int n))"

section \<open>Transaction context (types.TxInfo)\<close>

text \<open>
  An address or a hash is represented by its canonical hexadecimal text, so that
  \<^verbatim>\<open>common.HexToAddress\<close>, \<^verbatim>\<open>common.HexToHash\<close> and \<^verbatim>\<open>Hex\<close> are the identity.
\<close>

type_synonym address = string

type_synonym hash = string

definition HexToAddress :: "string \<Rightarrow> address" where
  "HexToAddress s = s"

definition HexToHash :: "string \<Rightarrow> hash" where
  "HexToHash s = s"

definition Hex :: "string \<Rightarrow> string" where
  "Hex a = a"

text \<open>The zero value of an address (\<^verbatim>\<open>types.NilAddress\<close>).\<close>

definition NilAddress :: address where
  "NilAddress = ''0x0000000000000000000000000000000000000000''"

text \<open>
  The fields of \<^verbatim>\<open>types.TxInfo\<close> are those that \<^verbatim>\<open>setTxInfo\<close> and \<^verbatim>\<open>FullFilled\<close>
  assign. Go embeds the struct in every decoded record and in every published event; the
  records below extend it, and \<open>with_TxInfo\<close> is the assignment
  \<^verbatim>\<open>evt.TxInfo = contractData.TxInfo\<close>.
\<close>

record TxInfo =
  Protocol :: address
  From :: address
  To :: address
  TxHash :: hash
  BlockHash :: hash
  LogIndex :: int
  BlockNumber :: int
  BlockTime :: int
  Status :: nat
  GasLimit :: int
  GasUsed :: int
  GasPrice :: int
  Nonce :: int
  Symbol :: string

definition with_TxInfo :: "TxInfo \<Rightarrow> 'a TxInfo_scheme \<Rightarrow> 'a TxInfo_scheme" where
  "with_TxInfo t e = TxInfo.extend t (TxInfo.more e)"

section \<open>The token and market registry (market/util/marketutil.go)\<close>

record Token =
  Protocol :: address
  Symbol :: string

record TokenPair =
  TokenS :: address
  TokenB :: address

text \<open>
  Modelled from the spec: \<^verbatim>\<open>dao.Token\<close>, \<^verbatim>\<open>dao.Token.ConvertUp\<close> and the two queries
  of \<^verbatim>\<open>dao.RdsService\<close> that \<^verbatim>\<open>Initialize\<close> calls are not part of these sources. A stored
  token has a symbol and a contract address, \<open>ConvertUp\<close> copies both, and each query
  returns an error or a list of records; the two query results are the arguments of
  \<open>Initialize\<close>.
\<close>

record dao_Token =
  dao_Protocol :: string
  dao_Symbol :: string

definition ConvertUp :: "dao_Token \<Rightarrow> Token" where
  "ConvertUp v = \<lparr>Protocol = HexToAddress (dao_Protocol v), Symbol = dao_Symbol v\<rparr>"

text \<open>
  The package's global variables. A Go map is an association list with distinct keys;
  storing under a key that is present replaces its value, and a \<^verbatim>\<open>range\<close> loop visits
  the entries in list order (Go leaves the order of a map's iteration open).
\<close>

record registry =
  SupportTokens :: "(string \<times> Token) list"
  AllTokens :: "(string \<times> Token) list"
  SupportMarkets :: "(string \<times> Token) list"
  AllMarkets :: "string list"
  AllTokenPairs :: "TokenPair list"

text \<open>The state of the package before the first \<open>Initialize\<close>: every variable is nil.\<close>

definition nil_registry :: registry where
  "nil_registry =
     \<lparr>SupportTokens = [], AllTokens = [], SupportMarkets = [], AllMarkets = [],
      AllTokenPairs = []\<rparr>"

text \<open>The loops of \<open>Initialize\<close>, one definition each, in the order of the source.\<close>

fun set_support_tokens :: "dao_Token list \<Rightarrow> (string \<times> Token) list \<Rightarrow> (string \<times> Token) list" where
  "set_support_tokens [] m = m"
| "set_support_tokens (v # vs) m = set_support_tokens vs (AList.update (dao_Symbol v) (ConvertUp v) m)"

fun set_all_tokens :: "(string \<times> Token) list \<Rightarrow> (string \<times> Token) list \<Rightarrow> (string \<times> Token) list" where
  "set_all_tokens [] m = m"
| "set_all_tokens ((k, v) # kvs) m = set_all_tokens kvs (AList.update k v m)"

fun set_support_markets :: "dao_Token list \<Rightarrow> (string \<times> Token) list \<Rightarrow> (string \<times> Token) list" where
  "set_support_markets [] m = m"
| "set_support_markets (v # vs) m =
     set_support_markets vs (AList.update (Symbol (ConvertUp v)) (ConvertUp v) m)"

definition market_symbols :: "(string \<times> Token) list \<Rightarrow> (string \<times> Token) list \<Rightarrow> string list" where
  "market_symbols tokens markets =
     concat (map (\<lambda>k. map (\<lambda>kk. Symbol k @ ''-'' @ Symbol kk) (map snd markets)) (map snd tokens))"

fun pairs_inner :: "Token \<Rightarrow> Token list \<Rightarrow> (string \<times> TokenPair) list \<Rightarrow> (string \<times> TokenPair) list" where
  "pairs_inner v [] m = m"
| "pairs_inner v (vv # vvs) m =
     pairs_inner v vvs
       (AList.update (Symbol vv @ ''-'' @ Symbol v) \<lparr>TokenS = Protocol vv, TokenB = Protocol v\<rparr>
         (AList.update (Symbol v @ ''-'' @ Symbol vv) \<lparr>TokenS = Protocol v, TokenB = Protocol vv\<rparr> m))"

fun pairs_outer :: "Token list \<Rightarrow> Token list \<Rightarrow> (string \<times> TokenPair) list \<Rightarrow> (string \<times> TokenPair) list" where
  "pairs_outer [] tokens m = m"
| "pairs_outer (v # vs) tokens m = pairs_outer vs tokens (pairs_inner v tokens m)"

definition pairsMap :: "(string \<times> Token) list \<Rightarrow> (string \<times> Token) list \<Rightarrow> (string \<times> TokenPair) list" where
  "pairsMap markets tokens = pairs_outer (map snd markets) (map snd tokens) []"

text \<open>
  \<open>Initialize\<close> on the package state \<open>r\<close>. \<^verbatim>\<open>log.Fatalf\<close> ends the process: the result
  is \<open>None\<close>. The three maps are made afresh; \<open>AllMarkets\<close> and \<open>AllTokenPairs\<close> are
  only appended to.
\<close>

definition Initialize ::
  "registry \<Rightarrow> string + dao_Token list \<Rightarrow> string + dao_Token list \<Rightarrow> registry option" where
  "Initialize r FindUnDeniedTokens FindUnDeniedMarkets =
     (case FindUnDeniedTokens of
        Inl err \<Rightarrow> None
      | Inr tokens \<Rightarrow>
          (case FindUnDeniedMarkets of
             Inl err \<Rightarrow> None
           | Inr markets \<Rightarrow>
               (let toks = set_support_tokens tokens [];
                    alltoks = set_all_tokens toks [];
                    mkts = set_support_markets markets []
                in Some \<lparr>SupportTokens = toks, AllTokens = alltoks, SupportMarkets = mkts,
                         AllMarkets = AllMarkets r @ market_symbols toks mkts,
                         AllTokenPairs = AllTokenPairs r @ map snd (pairsMap mkts toks)\<rparr>)))"

definition IsSupportedMarket :: "registry \<Rightarrow> string \<Rightarrow> bool" where
  "IsSupportedMarket r market = (map_of (SupportMarkets r) market \<noteq> None)"

definition IsSupportedToken :: "registry \<Rightarrow> string \<Rightarrow> bool" where
  "IsSupportedToken r token = (map_of (SupportTokens r) token \<noteq> None)"

text \<open>
  \<open>WrapMarket\<close> returns the pair of Go's two results: the market string (empty when
  the error is set) and the error (\<open>None\<close> is nil).
\<close>

definition WrapMarket :: "registry \<Rightarrow> string \<Rightarrow> string \<Rightarrow> string \<times> string option" where
  "WrapMarket r s0 b0 =
     (let s = ToLower s0; b = ToLower b0
      in if IsSupportedMarket r s \<and> IsSupportedToken r b then (hyphenate b s, None)
         else if IsSupportedMarket r b \<and> IsSupportedToken r s then (hyphenate s b, None)
         else ([], Some (''not supported market type : '' @ hyphenate s b)))"

definition UnWrap :: "string \<Rightarrow> string \<times> string" where
  "UnWrap market =
     (let mkt = Split (TrimSpace market) CHR ''-''
      in if length mkt \<noteq> 2 then ([], []) else (ToLower (mkt ! 0), ToLower (mkt ! 1)))"

definition AliasToAddress :: "registry \<Rightarrow> string \<Rightarrow> address" where
  "AliasToAddress r t =
     (case map_of (AllTokens r) t of Some v \<Rightarrow> Protocol v | None \<Rightarrow> NilAddress)"

definition AddressToAlias :: "registry \<Rightarrow> string \<Rightarrow> string" where
  "AddressToAlias r t =
     (case find (\<lambda>(k, v). t = Hex (Protocol v)) (AllTokens r) of Some (k, v) \<Rightarrow> k | None \<Rightarrow> [])"

definition WrapMarketByAddress :: "registry \<Rightarrow> string \<Rightarrow> string \<Rightarrow> string \<times> string option" where
  "WrapMarketByAddress r s b = WrapMarket r (AddressToAlias r s) (AddressToAlias r b)"

definition IsAddress :: "string \<Rightarrow> bool" where
  "IsAddress token = (take 2 token = ''0x'')"

definition IsBuy :: "registry \<Rightarrow> string \<Rightarrow> bool" where
  "IsBuy r s0 =
     (let s = (if IsAddress s0 then AddressToAlias r s0 else s0)
      in if map_of (SupportTokens r) s = None then False else True)"

text \<open>
  \<open>ByteToFloat\<close> divides by the constant \<open>weiToEther\<close>, which is not zero and is a
  float64 value; the quotient is written with the division of the reals and rounded.
  \<open>CalculatePrice\<close> divides by a computed value, with \<open>fdiv\<close>.
\<close>

definition weiToEther :: real where
  "weiToEther = 10 ^ 18"

definition ByteToFloat :: "(real \<Rightarrow> real) \<Rightarrow> (string \<Rightarrow> int) \<Rightarrow> string \<Rightarrow> real" where
  "ByteToFloat rnd decode amount =
     rnd (float64_of_int64 rnd (Int64 (decode amount)) / weiToEther)"

definition CalculatePrice ::
  "(real \<Rightarrow> real) \<Rightarrow> (string \<Rightarrow> int) \<Rightarrow> registry \<Rightarrow> string \<Rightarrow> string \<Rightarrow> string \<Rightarrow> string
     \<Rightarrow> real option" where
  "CalculatePrice rnd decode r amountS amountB s b =
     (let fs = ByteToFloat rnd decode amountS;
          fb = ByteToFloat rnd decode amountB
      in if fs = 0 \<or> fb = 0 then Some 0
         else if IsBuy r s then fdiv rnd fb fs
         else fdiv rnd fs fb)"

text \<open>
  The price that \<open>CalculatePrice\<close> is meant to give: the same computation on the decoded
  amounts themselves, with no cut to 64 bits.
\<close>

definition scaled_amount :: "(real \<Rightarrow> real) \<Rightarrow> int \<Rightarrow> real" where
  "scaled_amount rnd v = rnd (rnd (of_int v) / weiToEther)"

definition price_of_amounts :: "(real \<Rightarrow> real) \<Rightarrow> registry \<Rightarrow> int \<Rightarrow> int \<Rightarrow> string \<Rightarrow> real option" where
  "price_of_amounts rnd r vs vb s =
     (let fs = scaled_amount rnd vs; fb = scaled_amount rnd vb
      in if fs = 0 \<or> fb = 0 then Some 0
         else if IsBuy r s then fdiv rnd fb fs
         else fdiv rnd fs fb)"

text \<open>
  Sample registries. In \<open>sample_registry\<close> the tokens are lrc and weth and the one
  market is weth. \<open>odd_registry\<close> has a token stored under an upper-case symbol, a
  token whose symbol contains a hyphen, and two symbols (weth and dai) that are a market
  and a token at once.
\<close>

definition sample_token :: "string \<Rightarrow> string \<Rightarrow> dao_Token" where
  "sample_token symbol addr = \<lparr>dao_Protocol = addr, dao_Symbol = symbol\<rparr>"

definition sample_registry :: registry where
  "sample_registry =
     (case Initialize nil_registry
             (Inr [sample_token ''lrc'' ''0x01'', sample_token ''weth'' ''0x02''])
             (Inr [sample_token ''weth'' ''0x02'']) of
        Some r \<Rightarrow> r
      | None \<Rightarrow> nil_registry)"

definition odd_registry :: registry where
  "odd_registry =
     (case Initialize nil_registry
             (Inr [sample_token ''LRC'' ''0x01'', sample_token ''lrc-v2'' ''0x05'',
                   sample_token ''weth'' ''0x02'', sample_token ''dai'' ''0x04''])
             (Inr [sample_token ''weth'' ''0x02'', sample_token ''dai'' ''0x04'']) of
        Some r \<Rightarrow> r
      | None \<Rightarrow> nil_registry)"

section \<open>Decoding and publishing chain events (extractor)\<close>

text \<open>
  The records of package \<^verbatim>\<open>types\<close> that the handlers publish are not part of these
  sources. Each is modelled with the embedded \<open>TxInfo\<close> and the fields that its handler
  names; a field named like one of \<open>TxInfo\<close> is the promoted field of \<open>TxInfo\<close>.
  Amounts (\<^verbatim>\<open>*big.Int\<close>) are integers.
\<close>

record RingMinedEvent = TxInfo +
  Ringhash :: hash
  RingIndex :: int

record OrderCancelledEvent = TxInfo +
  OrderHash :: hash
  AmountCancelled :: int

record CutoffEvent = TxInfo +
  Owner :: address
  Cutoff :: int

record CutoffPairEvent = TxInfo +
  Owner :: address
  Token1 :: address
  Token2 :: address
  Cutoff :: int

record TransferEvent = TxInfo +
  Sender :: address
  Receiver :: address
  Value :: int

record ApprovalEvent = TxInfo +
  Owner :: address
  Spender :: address
  Value :: int

record TokenRegisterEvent = TxInfo +
  Token :: address

record TokenUnRegisterEvent = TxInfo +
  Token :: address

record AddressAuthorizedEvent = TxInfo +
  Number :: int

record AddressDeAuthorizedEvent = TxInfo +
  Number :: int

record WethDepositEvent = TxInfo +
  Owner :: address
  Value :: int

record WethWithdrawalEvent = TxInfo +
  Owner :: address
  Value :: int

text \<open>The stored order that \<^verbatim>\<open>GetOrdersByHash\<close> returns for a hash (\<^verbatim>\<open>dao.Order\<close>).\<close>

record dao_Order =
  OrderHash :: string
  TokenS :: string
  TokenB :: string
  Owner :: string

record OrderFilledEvent = TxInfo +
  Ringhash :: hash
  PreOrderHash :: hash
  OrderHash :: hash
  NextOrderHash :: hash
  Owner :: address
  TokenS :: address
  TokenB :: address
  SellTo :: address
  BuyFrom :: address
  RingIndex :: int
  AmountS :: int
  AmountB :: int
  LrcReward :: int
  LrcFee :: int
  Market :: string

text \<open>
  The decoded record that the dispatcher hands to a handler (\<^verbatim>\<open>EventData\<close>). The
  field \<^verbatim>\<open>CAbi\<close> is left out: no event handler reads it. \<open>Event\<close> holds the contract
  event of package \<^verbatim>\<open>ethaccessor\<close>, whose type the handler asserts; the type parameter
  \<open>'e\<close> is that type.

  The contract events and their \<^verbatim>\<open>ConvertDown\<close> methods are not part of these
  sources. A contract event is represented by its \<^verbatim>\<open>ConvertDown\<close>, as a function of
  the fields that the handler assigns from the topics before it calls the method.
\<close>

record 'e EventData = TxInfo +
  Event :: 'e
  Id :: hash
  Name :: string
  Topics :: "string list"

type_synonym ethaccessor_RingMinedEvent = "hash \<Rightarrow> string + (RingMinedEvent \<times> OrderFilledEvent list)"

type_synonym ethaccessor_OrderCancelledEvent = "hash \<Rightarrow> OrderCancelledEvent"

type_synonym ethaccessor_CutoffEvent = "address \<Rightarrow> CutoffEvent"

type_synonym ethaccessor_CutoffPairEvent = "address \<Rightarrow> CutoffPairEvent"

type_synonym ethaccessor_TransferEvent = "address \<Rightarrow> address \<Rightarrow> TransferEvent"

type_synonym ethaccessor_ApprovalEvent = "address \<Rightarrow> address \<Rightarrow> ApprovalEvent"

type_synonym ethaccessor_AddressAuthorizedEvent = "address \<Rightarrow> AddressAuthorizedEvent"

type_synonym ethaccessor_AddressDeAuthorizedEvent = "address \<Rightarrow> AddressDeAuthorizedEvent"

text \<open>
  What a handler does besides returning: lines written to the log (the logging function
  and its format string) and events published with \<^verbatim>\<open>eventemitter.Emit\<close>, in order.
  The topics are the constants of package \<^verbatim>\<open>eventemitter\<close> that the event handlers
  name. A published event is recorded as the value of the record at the moment of the
  call. (Go passes a pointer: a subscriber that keeps it sees what the handler assigns to
  the record afterwards as well.)
\<close>

datatype topic =
    OrderManagerExtractorRingMined
  | OrderManagerExtractorFill
  | TxManagerOrderFilledEvent
  | OrderManagerExtractorCancel
  | TxManagerOrderCancelledEvent
  | OrderManagerExtractorCutoff
  | TxManagerCutoffAllEvent
  | OrderManagerExtractorCutoffPair
  | TxManagerCutoffPairEvent
  | AccountTransfer
  | TxManagerTransferEvent
  | AccountApproval
  | TxManagerApproveEvent
  | TokenRegistered
  | TokenUnRegistered
  | AddressAuthorized
  | Topic_WethDepositEvent
  | TxManagerWethDepositEvent
  | Topic_WethWithdrawalEvent
  | TxManagerWethWithdrawalEvent

datatype payload =
    RingMinedP RingMinedEvent
  | OrderFilledP OrderFilledEvent
  | OrderCancelledP OrderCancelledEvent
  | CutoffP CutoffEvent
  | CutoffPairP CutoffPairEvent
  | TransferP TransferEvent
  | ApprovalP ApprovalEvent
  | TokenRegisterP TokenRegisterEvent
  | TokenUnRegisterP TokenUnRegisterEvent
  | AddressAuthorizedP AddressAuthorizedEvent
  | AddressDeAuthorizedP AddressDeAuthorizedEvent
  | WethDepositP WethDepositEvent
  | WethWithdrawalP WethWithdrawalEvent

datatype logger = Debugf | Errorf

datatype action = Log logger string | Emit topic payload

text \<open>A handler's result: what it did, and the Go error it returns (\<open>None\<close> is nil).\<close>

type_synonym result = "action list \<times> string option"

fun published :: "action list \<Rightarrow> (topic \<times> payload) list" where
  "published [] = []"
| "published (Log l m # as) = published as"
| "published (Emit t p # as) = (t, p) # published as"

fun logged :: "action list \<Rightarrow> (logger \<times> string) list" where
  "logged [] = []"
| "logged (Log l m # as) = (l, m) # logged as"
| "logged (Emit t p # as) = logged as"

definition published_on :: "topic \<Rightarrow> action list \<Rightarrow> payload list" where
  "published_on t as = map snd (filter (\<lambda>tp. fst tp = t) (published as))"

text \<open>
  \<^verbatim>\<open>AbiProcessor\<close>, with the fields the event handlers read: the delegate addresses and
  the order store, which is the query \<^verbatim>\<open>GetOrdersByHash\<close> (an error, or the map from
  hash text to stored order).
\<close>

record AbiProcessor =
  protocols :: "(address \<times> string) list"
  delegates :: "(address \<times> string) list"
  db :: "string list \<Rightarrow> string + (string \<times> dao_Order) list"

definition HasContract :: "AbiProcessor \<Rightarrow> address \<Rightarrow> bool" where
  "HasContract processor protocol = (map_of (protocols processor) protocol \<noteq> None)"

definition HasSpender :: "AbiProcessor \<Rightarrow> address \<Rightarrow> bool" where
  "HasSpender processor spender = (map_of (delegates processor) spender \<noteq> None)"

subsection \<open>handleRingMinedEvent\<close>

text \<open>
  The first loop over \<open>fillList\<close>: a fill whose order is in the map gets the order's
  tokens and owner and its market, is published for the order manager and is appended to
  \<open>saveFillList\<close>; the other fills are logged. The fills are pointers, so the loop
  updates \<open>fillList\<close> itself. The result is the updated \<open>fillList\<close>,
  \<open>saveFillList\<close> and the actions.
\<close>

fun match_orders ::
  "registry \<Rightarrow> (string \<times> dao_Order) list \<Rightarrow> OrderFilledEvent list
     \<Rightarrow> OrderFilledEvent list \<times> OrderFilledEvent list \<times> action list" where
  "match_orders util ordermap [] = ([], [], [])"
| "match_orders util ordermap (v # vs) =
     (case match_orders util ordermap vs of
        (fillList, saveFillList, acts) \<Rightarrow>
          (case map_of ordermap (Hex (OrderFilledEvent.OrderHash v)) of
             Some ord \<Rightarrow>
               (let v1 = v\<lparr>OrderFilledEvent.TokenS := HexToAddress (dao_Order.TokenS ord),
                            OrderFilledEvent.TokenB := HexToAddress (dao_Order.TokenB ord),
                            OrderFilledEvent.Owner := HexToAddress (dao_Order.Owner ord)\<rparr>;
                    v2 = v1\<lparr>Market :=
                            fst (WrapMarketByAddress util (Hex (OrderFilledEvent.TokenB v1))
                                   (Hex (OrderFilledEvent.TokenS v1)))\<rparr>
                in (v2 # fillList, v2 # saveFillList,
                    Emit OrderManagerExtractorFill (OrderFilledP v2) # acts))
           | None \<Rightarrow>
               (v # fillList, saveFillList,
                Log Debugf ''extractor,tx:%s orderFilled event cann't match order %s'' # acts)))"

text \<open>
  The second loop runs over \<open>fillList\<close> by index, sets the two counterparties of
  \<open>fillList[i]\<close> in place and publishes it for the transaction manager.
\<close>

definition link_fill ::
  "OrderFilledEvent list \<times> action list \<Rightarrow> nat \<Rightarrow> OrderFilledEvent list \<times> action list" where
  "link_fill st i =
     (let fillList = fst st;
          n = length fillList;
          fill = fillList ! i;
          fill1 = fill\<lparr>SellTo :=
                    (if i = n - 1 then OrderFilledEvent.Owner (fillList ! 0)
                     else OrderFilledEvent.Owner (fillList ! (i + 1)))\<rparr>;
          fill2 = fill1\<lparr>BuyFrom :=
                    (if i = 0 then OrderFilledEvent.Owner (fillList ! (n - 1))
                     else OrderFilledEvent.Owner (fillList ! (i - 1)))\<rparr>
      in (fillList[i := fill2],
          snd st @ [Emit TxManagerOrderFilledEvent (OrderFilledP fill2)]))"

definition link_fills :: "OrderFilledEvent list \<Rightarrow> OrderFilledEvent list \<times> action list" where
  "link_fills fillList = foldl link_fill (fillList, []) [0..<length fillList]"

definition handleRingMinedEvent ::
  "registry \<Rightarrow> AbiProcessor \<Rightarrow> ethaccessor_RingMinedEvent EventData \<Rightarrow> result" where
  "handleRingMinedEvent util processor contractData =
     (if length (Topics contractData) < 2 then
        ([Log Errorf ''extractor,tx:%s ringMined event indexed fields number error''], None)
      else
        (case Event contractData (HexToHash (Topics contractData ! 1)) of
           Inl err \<Rightarrow>
             ([Log Errorf ''extractor,tx:%s ringMined event convert down error:%s''], None)
         | Inr (ringmined0, fills) \<Rightarrow>
             (let ringmined = with_TxInfo (TxInfo.truncate contractData) ringmined0;
                  acts0 =
                    [Log Debugf ''extractor,tx:%s ringMined event ringhash:%s, ringIndex:%s, tx:%s'',
                     Emit OrderManagerExtractorRingMined (RingMinedP ringmined)];
                  fillList0 = map (with_TxInfo (TxInfo.truncate contractData)) fills;
                  acts1 = map (\<lambda>fill. Log Debugf ''extractor,tx:%s orderFilled event'') fillList0;
                  orderhashList = map (\<lambda>fill. Hex (OrderFilledEvent.OrderHash fill)) fillList0
              in (case db processor orderhashList of
                    Inl err \<Rightarrow>
                      (acts0 @ acts1 @
                       [Log Errorf ''extractor,tx:%s ringMined event getOrdersByHash error:%s''],
                       None)
                  | Inr ordermap \<Rightarrow>
                      (case match_orders util ordermap fillList0 of
                         (fillList, saveFillList, acts2) \<Rightarrow>
                           (acts0 @ acts1 @ acts2 @ snd (link_fills fillList), None))))))"

subsection \<open>The other event handlers\<close>

definition handleOrderCancelledEvent ::
  "AbiProcessor \<Rightarrow> ethaccessor_OrderCancelledEvent EventData \<Rightarrow> result" where
  "handleOrderCancelledEvent processor contractData =
     (if length (Topics contractData) < 2 then
        ([Log Errorf ''extractor,tx:%s orderCancelled event indexed fields number error''], None)
      else
        (let evt = with_TxInfo (TxInfo.truncate contractData)
                     (Event contractData (HexToHash (Topics contractData ! 1)))
         in ([Log Debugf ''extractor,tx:%s orderCancelled event orderhash:%s, cancelAmount:%s'',
              Emit OrderManagerExtractorCancel (OrderCancelledP evt),
              Emit TxManagerOrderCancelledEvent (OrderCancelledP evt)], None)))"

definition handleCutoffEvent :: "AbiProcessor \<Rightarrow> ethaccessor_CutoffEvent EventData \<Rightarrow> result" where
  "handleCutoffEvent processor contractData =
     (if length (Topics contractData) < 2 then
        ([Log Errorf ''extractor,tx:%s cutoffTimestampChanged event indexed fields number error''],
         None)
      else
        (let evt = with_TxInfo (TxInfo.truncate contractData)
                     (Event contractData (HexToAddress (Topics contractData ! 1)))
         in ([Log Debugf
                ''extractor,tx:%s cutoffTimestampChanged event ownerAddress:%s, cutOffTime:%s, status:%d'',
              Emit OrderManagerExtractorCutoff (CutoffP evt),
              Emit TxManagerCutoffAllEvent (CutoffP evt)], None)))"

definition handleCutoffPairEvent ::
  "AbiProcessor \<Rightarrow> ethaccessor_CutoffPairEvent EventData \<Rightarrow> result" where
  "handleCutoffPairEvent processor contractData =
     (if length (Topics contractData) < 2 then
        ([Log Errorf ''extractor,tx:%s cutoffPair event indexed fields number error''], None)
      else
        (let evt = with_TxInfo (TxInfo.truncate contractData)
                     (Event contractData (HexToAddress (Topics contractData ! 1)))
         in ([Log Debugf
                ''extractor,tx:%s cutoffPair event ownerAddress:%s, token1:%s, token2:%s, cutOffTime:%s'',
              Emit OrderManagerExtractorCutoffPair (CutoffPairP evt),
              Emit TxManagerCutoffPairEvent (CutoffPairP evt)], None)))"

definition handleTransferEvent ::
  "AbiProcessor \<Rightarrow> ethaccessor_TransferEvent EventData \<Rightarrow> result" where
  "handleTransferEvent processor contractData =
     (if length (Topics contractData) < 3 then
        ([Log Errorf ''extractor,tx:%s tokenTransfer event indexed fields number error''], None)
      else
        (let contractEvent_From = HexToAddress (Topics contractData ! 1);
             contractEvent_To = HexToAddress (Topics contractData ! 2);
             transfer0 = Event contractData contractEvent_From contractEvent_To;
             transfer1 = transfer0\<lparr>Sender := contractEvent_From, Receiver := contractEvent_To\<rparr>;
             transfer = with_TxInfo (TxInfo.truncate contractData) transfer1
         in ([Log Debugf ''extractor,tx:%s tokenTransfer event from:%s, to:%s, value:%s'',
              Emit AccountTransfer (TransferP transfer),
              Emit TxManagerTransferEvent (TransferP transfer)], None)))"

definition handleApprovalEvent ::
  "AbiProcessor \<Rightarrow> ethaccessor_ApprovalEvent EventData \<Rightarrow> result" where
  "handleApprovalEvent processor contractData =
     (if length (Topics contractData) < 3 then
        ([Log Errorf ''extractor,tx:%s approval event indexed fields number error''], None)
      else
        (let evt = with_TxInfo (TxInfo.truncate contractData)
                     (Event contractData (HexToAddress (Topics contractData ! 1))
                        (HexToAddress (Topics contractData ! 2)))
         in ([Log Debugf ''extractor,tx:%s approval event owner:%s, spender:%s, value:%s''] @
             (if HasSpender processor (Spender evt) then [Emit AccountApproval (ApprovalP evt)]
              else []) @
             [Emit TxManagerApproveEvent (ApprovalP evt)], None)))"

definition handleTokenRegisteredEvent ::
  "AbiProcessor \<Rightarrow> TokenRegisterEvent EventData \<Rightarrow> result" where
  "handleTokenRegisteredEvent processor contractData =
     (let evt = with_TxInfo (TxInfo.truncate contractData) (Event contractData)
      in ([Log Debugf ''extractor,tx:%s tokenRegistered event address:%s, symbol:%s'',
           Emit TokenRegistered (TokenRegisterP evt)], None))"

definition handleTokenUnRegisteredEvent ::
  "AbiProcessor \<Rightarrow> TokenUnRegisterEvent EventData \<Rightarrow> result" where
  "handleTokenUnRegisteredEvent processor contractData =
     (let evt = with_TxInfo (TxInfo.truncate contractData) (Event contractData)
      in ([Log Debugf ''extractor,tx:%s tokenUnregistered event address:%s, symbol:%s'',
           Emit TokenUnRegistered (TokenUnRegisterP evt)], None))"

definition handleAddressAuthorizedEvent ::
  "AbiProcessor \<Rightarrow> ethaccessor_AddressAuthorizedEvent EventData \<Rightarrow> result" where
  "handleAddressAuthorizedEvent processor contractData =
     (if length (Topics contractData) < 2 then
        ([Log Errorf ''extractor,tx:%s addressAuthorized event indexed fields number error''], None)
      else
        (let evt = with_TxInfo (TxInfo.truncate contractData)
                     (Event contractData (HexToAddress (Topics contractData ! 1)))
         in ([Log Debugf ''extractor,tx:%s addressAuthorized event address:%s, number:%d'',
              Emit AddressAuthorized (AddressAuthorizedP evt)], None)))"

definition handleAddressDeAuthorizedEvent ::
  "AbiProcessor \<Rightarrow> ethaccessor_AddressDeAuthorizedEvent EventData \<Rightarrow> result" where
  "handleAddressDeAuthorizedEvent processor contractData =
     (if length (Topics contractData) < 2 then
        ([Log Errorf ''extractor,tx:%s addressDeAuthorized event indexed fields number error''],
         None)
      else
        (let evt = with_TxInfo (TxInfo.truncate contractData)
                     (Event contractData (HexToAddress (Topics contractData ! 1)))
         in ([Log Debugf ''extractor,tx:%s addressDeAuthorized event address:%s, number:%d'',
              Emit AddressAuthorized (AddressDeAuthorizedP evt)], None)))"

definition handleWethDepositEvent ::
  "AbiProcessor \<Rightarrow> WethDepositEvent EventData \<Rightarrow> result" where
  "handleWethDepositEvent processor contractData =
     (if length (Topics contractData) < 2 then
        ([Log Errorf ''extractor,tx:%s wethDeposit event indexed fields number error''], None)
      else
        (let evt0 = Event contractData;
             evt1 = evt0\<lparr>WethDepositEvent.Owner := HexToAddress (Topics contractData ! 1)\<rparr>;
             evt = with_TxInfo (TxInfo.truncate contractData) evt1
         in ([Log Debugf ''extractor,tx:%s wethDeposit event deposit to:%s, number:%s'',
              Emit Topic_WethDepositEvent (WethDepositP evt),
              Emit TxManagerWethDepositEvent (WethDepositP evt)], None)))"

definition handleWethWithdrawalEvent ::
  "AbiProcessor \<Rightarrow> WethWithdrawalEvent EventData \<Rightarrow> result" where
  "handleWethWithdrawalEvent processor contractData =
     (if length (Topics contractData) < 2 then
        ([Log Errorf ''extractor,tx:%s wethWithdrawal event indexed fields number error''], None)
      else
        (let evt0 = Event contractData;
             evt1 = evt0\<lparr>WethWithdrawalEvent.Owner := HexToAddress (Topics contractData ! 1)\<rparr>;
             evt = with_TxInfo (TxInfo.truncate contractData) evt1
         in ([Log Debugf ''extractor,tx:%s wethWithdrawal event withdrawal from:%s, number:%s'',
              Emit Topic_WethWithdrawalEvent (WethWithdrawalP evt),
              Emit TxManagerWethWithdrawalEvent (WethWithdrawalP evt)], None)))"

text \<open>
  A result that is a diagnostic and nothing else: no event published, one line written
  with \<^verbatim>\<open>log.Errorf\<close>, and nil returned.
\<close>

definition diagnostic_only :: "result \<Rightarrow> bool" where
  "diagnostic_only r =
     (published (fst r) = [] \<and> map fst (logged (fst r)) = [Errorf] \<and> snd r = None)"

text \<open>Sample inputs: a transaction context, and a log payload that carries a list of topics.\<close>

definition sample_TxInfo :: TxInfo where
  "sample_TxInfo =
     \<lparr>TxInfo.Protocol = ''0xc0'', From = ''0xa1'', To = ''0xc0'', TxHash = ''0x77'',
      BlockHash = ''0xb5'', TxInfo.LogIndex = 1, TxInfo.BlockNumber = 32, BlockTime = 1500000000,
      Status = 2, GasLimit = 500000, GasUsed = 21000, GasPrice = 1000000000, Nonce = 7,
      TxInfo.Symbol = []\<rparr>"

definition sample_payload :: "'e \<Rightarrow> string list \<Rightarrow> 'e EventData" where
  "sample_payload e ts =
     TxInfo.extend sample_TxInfo
       (EventData.fields e ''0xddf2'' ''Event'' ts)"

definition sample_processor :: AbiProcessor where
  "sample_processor = \<lparr>protocols = [], delegates = [], db = (\<lambda>hs. Inr [])\<rparr>"

text \<open>
  A sample settlement of three fills, as \<^verbatim>\<open>ConvertDown\<close> hands them over (tokens,
  owner and counterparties not yet set), and an order store that knows the first and the
  third order and not the second. \<open>fill_summary\<close> reads the order hash, the owner and
  the two counterparties (sell-to, buy-from) off a published fill.
\<close>

fun fill_summary :: "payload \<Rightarrow> (hash \<times> address \<times> address \<times> address) option" where
  "fill_summary (OrderFilledP f) =
     Some (OrderFilledEvent.OrderHash f, OrderFilledEvent.Owner f, SellTo f, BuyFrom f)"
| "fill_summary p = None"

definition fill_hash :: "payload \<Rightarrow> hash option" where
  "fill_hash p = map_option fst (fill_summary p)"

definition sample_fill :: "hash \<Rightarrow> OrderFilledEvent" where
  "sample_fill h =
     TxInfo.extend sample_TxInfo
       (OrderFilledEvent.fields ''0x99'' [] h [] NilAddress NilAddress NilAddress NilAddress
          NilAddress 1 100 200 0 0 [])"

definition sample_ring :: ethaccessor_RingMinedEvent where
  "sample_ring ringhash =
     Inr (TxInfo.extend sample_TxInfo (RingMinedEvent.fields ringhash 1),
          [sample_fill ''0xh1'', sample_fill ''0xh2'', sample_fill ''0xh3''])"

definition sample_order :: "string \<Rightarrow> string \<Rightarrow> dao_Order" where
  "sample_order h owner =
     \<lparr>dao_Order.OrderHash = h, dao_Order.TokenS = ''0x01'', dao_Order.TokenB = ''0x02'',
      dao_Order.Owner = owner\<rparr>"

definition sample_store :: AbiProcessor where
  "sample_store =
     \<lparr>protocols = [], delegates = [],
      db = (\<lambda>hs. Inr [(''0xh1'', sample_order ''0xh1'' ''0xa1''),
                       (''0xh3'', sample_order ''0xh3'' ''0xa3'')])\<rparr>"

definition sample_ring_result :: result where
  "sample_ring_result =
     handleRingMinedEvent sample_registry sample_store
       (sample_payload sample_ring [''0xe4'', ''0x99''])"

section \<open>Fork events (ordermanager)\<close>

text \<open>
  Modelled from the spec: the type \<^verbatim>\<open>InnerForkEventList\<close> and its methods
  \<^verbatim>\<open>Len\<close>, \<^verbatim>\<open>Swap\<close> and \<^verbatim>\<open>Less\<close> are in a file of package
  \<^verbatim>\<open>ordermanager\<close> that is not part of these sources; only its test is. A fork event
  key is a block number and a log index (the two fields the test sets), and the order is
  the spec's: block number ascending, then log index ascending. \<^verbatim>\<open>sort.Sort\<close> of the Go
  library sorts in place by \<open>Less\<close>; it is modelled by insertion sort, which is what the
  library runs on a short list.
\<close>

record InnerForkEvent =
  BlockNumber :: int
  LogIndex :: int

definition Less :: "InnerForkEvent \<Rightarrow> InnerForkEvent \<Rightarrow> bool" where
  "Less a b =
     (if InnerForkEvent.BlockNumber a = InnerForkEvent.BlockNumber b
      then InnerForkEvent.LogIndex a < InnerForkEvent.LogIndex b
      else InnerForkEvent.BlockNumber a < InnerForkEvent.BlockNumber b)"

fun insert_event :: "InnerForkEvent \<Rightarrow> InnerForkEvent list \<Rightarrow> InnerForkEvent list" where
  "insert_event x [] = [x]"
| "insert_event x (y # ys) = (if Less x y then x # y # ys else y # insert_event x ys)"

fun Sort :: "InnerForkEvent list \<Rightarrow> InnerForkEvent list" where
  "Sort [] = []"
| "Sort (x # xs) = insert_event x (Sort xs)"

text \<open>
  The spec's ordering rule, in its own words: the block number decides, and within one
  block the log index.
\<close>

definition key_le :: "InnerForkEvent \<Rightarrow> InnerForkEvent \<Rightarrow> bool" where
  "key_le a b =
     (InnerForkEvent.BlockNumber a < InnerForkEvent.BlockNumber b \<or>
      (InnerForkEvent.BlockNumber a = InnerForkEvent.BlockNumber b \<and>
       InnerForkEvent.LogIndex a \<le> InnerForkEvent.LogIndex b))"

section \<open>Fork events: sorting\<close>

lemma set_insert_event: "set (insert_event x ys) = insert x (set ys)"
  by (induction ys) auto

lemma mset_insert_event: "mset (insert_event x ys) = add_mset x (mset ys)"
  by (induction ys) auto

lemma key_le_trans: "key_le a b \<Longrightarrow> key_le b c \<Longrightarrow> key_le a c"
  by (auto simp: key_le_def)

lemma key_le_antisym: "key_le a b \<Longrightarrow> key_le b a \<Longrightarrow> a = (b::InnerForkEvent)"
  by (cases a, cases b) (auto simp: key_le_def)

lemma Less_key_le: "Less a b \<Longrightarrow> key_le a b"
  by (auto simp: Less_def key_le_def split: if_splits)

lemma not_Less_key_le: "\<not> Less a b \<Longrightarrow> key_le b a"
  by (auto simp: Less_def key_le_def split: if_splits)

lemma sorted_insert_event: "sorted_wrt key_le ys \<Longrightarrow> sorted_wrt key_le (insert_event x ys)"
  by (induction ys) (auto simp: set_insert_event dest: Less_key_le not_Less_key_le key_le_trans)

lemma sorted_Sort: "sorted_wrt key_le (Sort xs)"
  by (induction xs) (auto simp: sorted_insert_event)

lemma mset_Sort: "mset (Sort xs) = mset xs"
  by (induction xs) (auto simp: mset_insert_event)

text \<open>
  The order leaves no choice: two lists with the same elements that are both in key order
  are equal. So the result of \<open>Sort\<close> is the result of every sorting procedure that
  permutes its input into key order, whatever its algorithm.
\<close>

lemma key_sorted_unique:
  "sorted_wrt key_le xs \<Longrightarrow> sorted_wrt key_le ys \<Longrightarrow> mset xs = mset ys \<Longrightarrow> xs = ys"
proof (induction xs arbitrary: ys)
  case Nil
  then show ?case by simp
next
  case (Cons x xs)
  then obtain y ys' where ys: "ys = y # ys'"
    by (cases ys) auto
  have xin: "x \<in> set ys"
    using Cons.prems(3) by (metis list.set_intros(1) mset_eq_setD)
  have yin: "y \<in> set (x # xs)"
    using Cons.prems(3) ys by (metis list.set_intros(1) mset_eq_setD)
  have "key_le y x"
    using xin Cons.prems(2) ys by (auto simp: key_le_def)
  moreover have "key_le x y"
    using yin Cons.prems(1) by (auto simp: key_le_def)
  ultimately have "x = y"
    by (rule key_le_antisym[rotated])
  then show ?case
    using Cons ys by auto
qed

lemma Sort_is_the_sorted_permutation:
  "sorted_wrt key_le ys \<Longrightarrow> mset ys = mset xs \<Longrightarrow> ys = Sort xs"
  by (rule key_sorted_unique) (simp_all add: sorted_Sort mset_Sort)

text \<open>
  Claim C6. Sorting a list of fork event keys gives the same keys ordered by block number
  ascending, with the log index ascending inside one block; the list
  \<open>[(32,3), (32,2), (35,3)]\<close> sorts to \<open>[(32,2), (32,3), (35,3)]\<close>.
\<close>

theorem Sort_by_block_number_then_log_index:
  "sorted_wrt key_le (Sort xs) \<and> mset (Sort xs) = mset xs \<and>
   Sort [\<lparr>BlockNumber = 32, LogIndex = 3\<rparr>, \<lparr>BlockNumber = 32, LogIndex = 2\<rparr>,
         \<lparr>BlockNumber = 35, LogIndex = 3\<rparr>] =
     [\<lparr>BlockNumber = 32, LogIndex = 2\<rparr>, \<lparr>BlockNumber = 32, LogIndex = 3\<rparr>,
      \<lparr>BlockNumber = 35, LogIndex = 3\<rparr>]"
  by (simp add: sorted_Sort mset_Sort Less_def)

section \<open>Event handlers\<close>

lemma Topics_sample_payload: "Topics (sample_payload e ts) = ts"
  by (simp add: sample_payload_def TxInfo.extend_def EventData.fields_def sample_TxInfo_def)

lemma short_RingMined:
  "length (Topics d) < 2 \<Longrightarrow> diagnostic_only (handleRingMinedEvent util processor d)"
  by (simp add: diagnostic_only_def handleRingMinedEvent_def)

lemma short_OrderCancelled:
  "length (Topics d) < 2 \<Longrightarrow> diagnostic_only (handleOrderCancelledEvent processor d)"
  by (simp add: diagnostic_only_def handleOrderCancelledEvent_def)

lemma short_Cutoff:
  "length (Topics d) < 2 \<Longrightarrow> diagnostic_only (handleCutoffEvent processor d)"
  by (simp add: diagnostic_only_def handleCutoffEvent_def)

lemma short_CutoffPair:
  "length (Topics d) < 2 \<Longrightarrow> diagnostic_only (handleCutoffPairEvent processor d)"
  by (simp add: diagnostic_only_def handleCutoffPairEvent_def)

lemma short_Transfer:
  "length (Topics d) < 3 \<Longrightarrow> diagnostic_only (handleTransferEvent processor d)"
  by (simp add: diagnostic_only_def handleTransferEvent_def)

lemma short_Approval:
  "length (Topics d) < 3 \<Longrightarrow> diagnostic_only (handleApprovalEvent processor d)"
  by (simp add: diagnostic_only_def handleApprovalEvent_def)

lemma short_AddressAuthorized:
  "length (Topics d) < 2 \<Longrightarrow> diagnostic_only (handleAddressAuthorizedEvent processor d)"
  by (simp add: diagnostic_only_def handleAddressAuthorizedEvent_def)

lemma short_AddressDeAuthorized:
  "length (Topics d) < 2 \<Longrightarrow> diagnostic_only (handleAddressDeAuthorizedEvent processor d)"
  by (simp add: diagnostic_only_def handleAddressDeAuthorizedEvent_def)

lemma short_WethDeposit:
  "length (Topics d) < 2 \<Longrightarrow> diagnostic_only (handleWethDepositEvent processor d)"
  by (simp add: diagnostic_only_def handleWethDepositEvent_def)

lemma short_WethWithdrawal:
  "length (Topics d) < 2 \<Longrightarrow> diagnostic_only (handleWethWithdrawalEvent processor d)"
  by (simp add: diagnostic_only_def handleWethWithdrawalEvent_def)

text \<open>
  Claim C7. A log payload of a recognised event that carries fewer topics than its handler
  requires is answered with a diagnostic only: the handler writes one error line to the
  log, publishes no event and returns nil. Ten of the twelve event handlers require
  topics: two for the transfer and the approval event (three entries with the signature),
  one for the others (two entries). The handlers of the token-registered and the
  token-unregistered event read no topic and require none.
\<close>

theorem too_few_topics_diagnostic_only:
  "(length (Topics dRingMined) < 2 \<longrightarrow>
      diagnostic_only (handleRingMinedEvent util processor dRingMined)) \<and>
   (length (Topics dCancelled) < 2 \<longrightarrow>
      diagnostic_only (handleOrderCancelledEvent processor dCancelled)) \<and>
   (length (Topics dCutoff) < 2 \<longrightarrow> diagnostic_only (handleCutoffEvent processor dCutoff)) \<and>
   (length (Topics dCutoffPair) < 2 \<longrightarrow>
      diagnostic_only (handleCutoffPairEvent processor dCutoffPair)) \<and>
   (length (Topics dTransfer) < 3 \<longrightarrow> diagnostic_only (handleTransferEvent processor dTransfer)) \<and>
   (length (Topics dApproval) < 3 \<longrightarrow> diagnostic_only (handleApprovalEvent processor dApproval)) \<and>
   (length (Topics dAuthorized) < 2 \<longrightarrow>
      diagnostic_only (handleAddressAuthorizedEvent processor dAuthorized)) \<and>
   (length (Topics dDeAuthorized) < 2 \<longrightarrow>
      diagnostic_only (handleAddressDeAuthorizedEvent processor dDeAuthorized)) \<and>
   (length (Topics dDeposit) < 2 \<longrightarrow> diagnostic_only (handleWethDepositEvent processor dDeposit)) \<and>
   (length (Topics dWithdrawal) < 2 \<longrightarrow>
      diagnostic_only (handleWethWithdrawalEvent processor dWithdrawal))"
  by (simp add: short_RingMined short_OrderCancelled short_Cutoff short_CutoffPair
      short_Transfer short_Approval short_AddressAuthorized short_AddressDeAuthorized
      short_WethDeposit short_WethWithdrawal)

theorem too_few_topics_diagnostic_only_witness:
  "diagnostic_only
     (handleRingMinedEvent nil_registry sample_processor
        (sample_payload (\<lambda>h. Inl ''ringMined event unpack error'') [''0xddf2''])) \<and>
   diagnostic_only
     (handleOrderCancelledEvent sample_processor
        (sample_payload (\<lambda>h. TxInfo.extend sample_TxInfo (OrderCancelledEvent.fields h 5))
           [''0xddf2''])) \<and>
   diagnostic_only
     (handleCutoffEvent sample_processor
        (sample_payload (\<lambda>a. TxInfo.extend sample_TxInfo (CutoffEvent.fields a 1500000000)) [])) \<and>
   diagnostic_only
     (handleCutoffPairEvent sample_processor
        (sample_payload
           (\<lambda>a. TxInfo.extend sample_TxInfo (CutoffPairEvent.fields a ''0x01'' ''0x02'' 1500000000))
           [''0xddf2''])) \<and>
   diagnostic_only
     (handleTransferEvent sample_processor
        (sample_payload (\<lambda>f t. TxInfo.extend sample_TxInfo (TransferEvent.fields f t 10))
           [''0xddf2'', ''0xa1''])) \<and>
   diagnostic_only
     (handleApprovalEvent sample_processor
        (sample_payload (\<lambda>ow sp. TxInfo.extend sample_TxInfo (ApprovalEvent.fields ow sp 10))
           [''0xddf2'', ''0xa1''])) \<and>
   diagnostic_only
     (handleAddressAuthorizedEvent sample_processor
        (sample_payload (\<lambda>a. TxInfo.extend sample_TxInfo (AddressAuthorizedEvent.fields 1))
           [''0xddf2''])) \<and>
   diagnostic_only
     (handleAddressDeAuthorizedEvent sample_processor
        (sample_payload (\<lambda>a. TxInfo.extend sample_TxInfo (AddressDeAuthorizedEvent.fields 1))
           [''0xddf2''])) \<and>
   diagnostic_only
     (handleWethDepositEvent sample_processor
        (sample_payload (TxInfo.extend sample_TxInfo (WethDepositEvent.fields [] 10))
           [''0xddf2''])) \<and>
   diagnostic_only
     (handleWethWithdrawalEvent sample_processor
        (sample_payload (TxInfo.extend sample_TxInfo (WethWithdrawalEvent.fields [] 10))
           [''0xddf2'']))"
  using too_few_topics_diagnostic_only
    [where dRingMined = "sample_payload (\<lambda>h. Inl ''ringMined event unpack error'') [''0xddf2'']"
       and util = nil_registry and processor = sample_processor
       and dCancelled =
         "sample_payload (\<lambda>h. TxInfo.extend sample_TxInfo (OrderCancelledEvent.fields h 5))
            [''0xddf2'']"
       and dCutoff =
         "sample_payload (\<lambda>a. TxInfo.extend sample_TxInfo (CutoffEvent.fields a 1500000000)) []"
       and dCutoffPair =
         "sample_payload
            (\<lambda>a. TxInfo.extend sample_TxInfo (CutoffPairEvent.fields a ''0x01'' ''0x02'' 1500000000))
            [''0xddf2'']"
       and dTransfer =
         "sample_payload (\<lambda>f t. TxInfo.extend sample_TxInfo (TransferEvent.fields f t 10))
            [''0xddf2'', ''0xa1'']"
       and dApproval =
         "sample_payload (\<lambda>ow sp. TxInfo.extend sample_TxInfo (ApprovalEvent.fields ow sp 10))
            [''0xddf2'', ''0xa1'']"
       and dAuthorized =
         "sample_payload (\<lambda>a. TxInfo.extend sample_TxInfo (AddressAuthorizedEvent.fields 1))
            [''0xddf2'']"
       and dDeAuthorized =
         "sample_payload (\<lambda>a. TxInfo.extend sample_TxInfo (AddressDeAuthorizedEvent.fields 1))
            [''0xddf2'']"
       and dDeposit =
         "sample_payload (TxInfo.extend sample_TxInfo (WethDepositEvent.fields [] 10)) [''0xddf2'']"
       and dWithdrawal =
         "sample_payload (TxInfo.extend sample_TxInfo (WethWithdrawalEvent.fields [] 10))
            [''0xddf2'']"]
  by (simp add: Topics_sample_payload)

text \<open>
  Claim C9. The handler of the AddressDeauthorized event publishes its decoded event on
  the topic \<open>AddressAuthorized\<close>, the topic on which the handler of the AddressAuthorized
  event publishes, and on no other topic. (A payload with fewer than two topics is not
  decoded and nothing is published for it, by either handler.)
\<close>

theorem deauthorized_published_on_authorized_topic:
  "published (fst (handleAddressDeAuthorizedEvent processor d)) =
     (if length (Topics d) < 2 then []
      else [(AddressAuthorized,
             AddressDeAuthorizedP
               (with_TxInfo (TxInfo.truncate d) (Event d (HexToAddress (Topics d ! 1)))))]) \<and>
   published (fst (handleAddressAuthorizedEvent processor' d')) =
     (if length (Topics d') < 2 then []
      else [(AddressAuthorized,
             AddressAuthorizedP
               (with_TxInfo (TxInfo.truncate d') (Event d' (HexToAddress (Topics d' ! 1)))))])"
  by (simp add: handleAddressDeAuthorizedEvent_def handleAddressAuthorizedEvent_def Let_def)

lemma published_append: "published (xs @ ys) = published xs @ published ys"
  by (induction xs rule: published.induct) auto

lemma published_on_append: "published_on t (xs @ ys) = published_on t xs @ published_on t ys"
  by (simp add: published_on_def published_append)

lemma published_on_Log: "published_on t (Log l m # xs) = published_on t xs"
  by (simp add: published_on_def)

lemma published_on_Emit:
  "published_on t (Emit t' p # xs) = (if t' = t then p # published_on t xs else published_on t xs)"
  by (simp add: published_on_def)

lemma published_on_Nil: "published_on t [] = []"
  by (simp add: published_on_def)

lemma published_on_logs: "published_on t (map (\<lambda>x. Log l m) xs) = []"
  by (induction xs) (simp_all add: published_on_Nil published_on_Log)

lemma OrderHash_with_TxInfo:
  "OrderFilledEvent.OrderHash (with_TxInfo t f) = OrderFilledEvent.OrderHash f"
  by (cases f) (simp add: with_TxInfo_def TxInfo.extend_def)

lemma fill_hash_fill: "fill_hash (OrderFilledP f) = Some (OrderFilledEvent.OrderHash f)"
  by (simp add: fill_hash_def)

lemma match_orders_facts:
  "match_orders util om fl = (fl', saved, acts) \<Longrightarrow>
   map OrderFilledEvent.OrderHash fl' = map OrderFilledEvent.OrderHash fl \<and>
   published_on TxManagerOrderFilledEvent acts = [] \<and>
   map fill_hash (published_on OrderManagerExtractorFill acts) =
     map (\<lambda>f. Some (OrderFilledEvent.OrderHash f))
       (filter (\<lambda>f. map_of om (Hex (OrderFilledEvent.OrderHash f)) \<noteq> None) fl)"
proof (induction fl arbitrary: fl' saved acts)
  case Nil
  then show ?case by (simp add: published_on_Nil)
next
  case (Cons v vs)
  obtain fl1 saved1 acts1 where r: "match_orders util om vs = (fl1, saved1, acts1)"
    by (cases "match_orders util om vs") auto
  note ih = Cons.IH[OF r]
  show ?case
  proof (cases "map_of om (Hex (OrderFilledEvent.OrderHash v))")
    case None
    with Cons.prems r ih show ?thesis
      by (auto simp: published_on_Log)
  next
    case (Some ord)
    with Cons.prems r ih show ?thesis
      by (auto simp: Let_def published_on_Emit fill_hash_fill)
  qed
qed

lemma link_fill_facts:
  assumes "i < length (fst st)"
  shows "length (fst (link_fill st i)) = length (fst st) \<and>
         map OrderFilledEvent.OrderHash (fst (link_fill st i)) =
           map OrderFilledEvent.OrderHash (fst st) \<and>
         map fill_hash (published_on TxManagerOrderFilledEvent (snd (link_fill st i))) =
           map fill_hash (published_on TxManagerOrderFilledEvent (snd st)) @
           [Some (OrderFilledEvent.OrderHash (fst st ! i))]"
  using assms
  by (simp add: link_fill_def Let_def published_on_append published_on_Emit published_on_Nil
      fill_hash_fill map_update list_update_same_conv)

lemma link_loop_facts:
  "i \<le> length fl \<Longrightarrow>
   length (fst (foldl link_fill (fl, []) [0..<i])) = length fl \<and>
   map OrderFilledEvent.OrderHash (fst (foldl link_fill (fl, []) [0..<i])) =
     map OrderFilledEvent.OrderHash fl \<and>
   map fill_hash (published_on TxManagerOrderFilledEvent (snd (foldl link_fill (fl, []) [0..<i]))) =
     map (\<lambda>f. Some (OrderFilledEvent.OrderHash f)) (take i fl)"
proof (induction i)
  case 0
  then show ?case by (simp add: published_on_Nil)
next
  case (Suc i)
  then have ih: "length (fst (foldl link_fill (fl, []) [0..<i])) = length fl"
    "map OrderFilledEvent.OrderHash (fst (foldl link_fill (fl, []) [0..<i])) =
       map OrderFilledEvent.OrderHash fl"
    "map fill_hash (published_on TxManagerOrderFilledEvent (snd (foldl link_fill (fl, []) [0..<i]))) =
       map (\<lambda>f. Some (OrderFilledEvent.OrderHash f)) (take i fl)"
    by simp_all
  have i: "i < length (fst (foldl link_fill (fl, []) [0..<i]))"
    using Suc.prems ih(1) by simp
  have nth: "OrderFilledEvent.OrderHash (fst (foldl link_fill (fl, []) [0..<i]) ! i) =
             OrderFilledEvent.OrderHash (fl ! i)"
    using ih(2) i ih(1) by (metis nth_map)
  show ?case
    using link_fill_facts[OF i] ih nth Suc.prems
    by (simp add: take_Suc_conv_app_nth)
qed

lemma link_fill_other_topic:
  "t \<noteq> TxManagerOrderFilledEvent \<Longrightarrow>
   published_on t (snd (link_fill st i)) = published_on t (snd st)"
  by (simp add: link_fill_def Let_def published_on_append published_on_Emit published_on_Nil)

lemma link_loop_other_topic:
  "t \<noteq> TxManagerOrderFilledEvent \<Longrightarrow>
   published_on t (snd (foldl link_fill st is)) = published_on t (snd st)"
  by (induction "is" arbitrary: st) (simp_all add: link_fill_other_topic)

lemma link_fills_other_topic:
  "t \<noteq> TxManagerOrderFilledEvent \<Longrightarrow> published_on t (snd (link_fills fl)) = []"
  by (simp add: link_fills_def link_loop_other_topic published_on_Nil)

lemma link_fills_facts:
  "map fill_hash (published_on TxManagerOrderFilledEvent (snd (link_fills fl))) =
     map (\<lambda>f. Some (OrderFilledEvent.OrderHash f)) fl"
  using link_loop_facts[of "length fl" fl] by (simp add: link_fills_def)

text \<open>
  What the handler publishes for the fills, by order hash, when the settlement is decoded
  and the order store answers: the transaction manager's topic gets every fill of the
  settlement, in order; the order manager's topic gets the fills whose order is stored.
\<close>

lemma ring_mined_publishes_every_fill:
  assumes t: "\<not> length (Topics d) < 2"
    and c: "Event d (HexToHash (Topics d ! 1)) = Inr (rm, fills)"
    and q: "db p (map (\<lambda>f. Hex (OrderFilledEvent.OrderHash f)) fills) = Inr om"
  shows "map fill_hash (published_on TxManagerOrderFilledEvent (fst (handleRingMinedEvent u p d))) =
           map (\<lambda>f. Some (OrderFilledEvent.OrderHash f)) fills \<and>
         map fill_hash (published_on OrderManagerExtractorFill (fst (handleRingMinedEvent u p d))) =
           map (\<lambda>f. Some (OrderFilledEvent.OrderHash f))
             (filter (\<lambda>f. map_of om (Hex (OrderFilledEvent.OrderHash f)) \<noteq> None) fills)"
proof -
  define fl0 where "fl0 = map (with_TxInfo (TxInfo.truncate d)) fills"
  have h0: "map OrderFilledEvent.OrderHash fl0 = map OrderFilledEvent.OrderHash fills"
    by (simp add: fl0_def OrderHash_with_TxInfo)
  have q': "db p (map (\<lambda>fill. Hex (OrderFilledEvent.OrderHash fill)) fl0) = Inr om"
    using q by (simp add: fl0_def OrderHash_with_TxInfo comp_def)
  obtain fl saved acts where m: "match_orders u om fl0 = (fl, saved, acts)"
    by (cases "match_orders u om fl0") auto
  note mf = match_orders_facts[OF m]
  have filt: "map (\<lambda>f. Some (OrderFilledEvent.OrderHash f))
                (filter (\<lambda>f. map_of om (Hex (OrderFilledEvent.OrderHash f)) \<noteq> None) fl0) =
              map (\<lambda>f. Some (OrderFilledEvent.OrderHash f))
                (filter (\<lambda>f. map_of om (Hex (OrderFilledEvent.OrderHash f)) \<noteq> None) fills)"
    by (simp add: fl0_def filter_map comp_def OrderHash_with_TxInfo)
  have lf: "map fill_hash (published_on TxManagerOrderFilledEvent (snd (link_fills fl))) =
            map (\<lambda>f. Some (OrderFilledEvent.OrderHash f)) fills"
  proof -
    have "map (\<lambda>f. Some (OrderFilledEvent.OrderHash f)) fl =
          map Some (map OrderFilledEvent.OrderHash fl)"
      by simp
    also have "\<dots> = map Some (map OrderFilledEvent.OrderHash fills)"
      using mf h0 by simp
    finally show ?thesis
      using link_fills_facts[of fl] by simp
  qed
  have res: "fst (handleRingMinedEvent u p d) =
     [Log Debugf ''extractor,tx:%s ringMined event ringhash:%s, ringIndex:%s, tx:%s'',
      Emit OrderManagerExtractorRingMined (RingMinedP (with_TxInfo (TxInfo.truncate d) rm))] @
     map (\<lambda>fill. Log Debugf ''extractor,tx:%s orderFilled event'') fl0 @ acts @ snd (link_fills fl)"
    using t c q' m by (simp add: handleRingMinedEvent_def Let_def fl0_def)
  show ?thesis
    using mf lf filt
    by (simp add: res published_on_append published_on_Log published_on_Emit published_on_logs
        published_on_Nil link_fills_other_topic)
qed

lemma upt_0_3: "[0..<3] = [0, 1, 2]"
  by (simp add: upt_rec)

text \<open>
  Claim C3 says that the ring-mined handler publishes, on the fill topic of the order
  manager and on the fill topic of the transaction manager, exactly the fills whose orders
  are stored, each with the owners of the neighbouring matched fills as counterparties,
  and that it skips a fill whose order is not stored. The handler does so on the order
  manager's topic only. Its second loop runs over \<open>fillList\<close>, all fills, and not
  over \<open>saveFillList\<close>, which the first loop builds and nothing reads. On the sample
  settlement (three fills, the order of the second one not stored) the order manager is
  sent the first and the third fill, at a moment when no counterparty is set; the
  transaction manager is sent all three, the unmatched one with the zero address as owner,
  and the counterparties of the matched fills are taken from the unmatched fill where it
  is their neighbour. Lemma \<open>ring_mined_publishes_every_fill\<close> states the same for every
  settlement that is decoded and looked up without error.
\<close>

theorem ring_mined_publishes_unmatched_fill:
  "map fill_summary (published_on OrderManagerExtractorFill (fst sample_ring_result)) =
     [Some (''0xh1'', ''0xa1'', NilAddress, NilAddress),
      Some (''0xh3'', ''0xa3'', NilAddress, NilAddress)] \<and>
   map fill_summary (published_on TxManagerOrderFilledEvent (fst sample_ring_result)) =
     [Some (''0xh1'', ''0xa1'', NilAddress, ''0xa3''),
      Some (''0xh2'', NilAddress, ''0xa3'', ''0xa1''),
      Some (''0xh3'', ''0xa3'', ''0xa1'', NilAddress)]"
  by (simp add: sample_ring_result_def handleRingMinedEvent_def sample_payload_def sample_ring_def
      sample_store_def sample_fill_def sample_order_def with_TxInfo_def TxInfo.extend_def
      TxInfo.truncate_def EventData.fields_def OrderFilledEvent.fields_def
      RingMinedEvent.fields_def HexToHash_def HexToAddress_def Hex_def link_fills_def
      link_fill_def upt_0_3 published_on_def sample_TxInfo_def Let_def)

section \<open>Strings\<close>

lemma lower_char_idem: "lower_char (lower_char c) = lower_char c"
  by (simp add: lower_char_def)

lemma lower_char_hyphen: "(lower_char c = CHR ''-'') = (c = CHR ''-'')"
  by (simp add: lower_char_def)

lemma isSpace_lower_char: "isSpace (lower_char c) = isSpace c"
  by (simp add: lower_char_def isSpace_def)

lemma ToLower_idem: "ToLower (ToLower s) = ToLower s"
  by (simp add: ToLower_def lower_char_idem)

lemma hyphen_ToLower: "(CHR ''-'' \<in> set (ToLower s)) = (CHR ''-'' \<in> set s)"
proof -
  have "(CHR ''-'' \<in> set (ToLower s)) = (\<exists>c\<in>set s. lower_char c = CHR ''-'')"
    by (force simp: ToLower_def image_iff)
  then show ?thesis
    by (simp add: lower_char_hyphen)
qed

lemma dropWhile_isSpace_ToLower: "dropWhile isSpace (ToLower s) = ToLower (dropWhile isSpace s)"
  by (induction s) (auto simp: ToLower_def isSpace_lower_char)

lemma TrimSpace_ToLower: "TrimSpace (ToLower s) = ToLower (TrimSpace s)"
  unfolding TrimSpace_def
  by (metis ToLower_def dropWhile_isSpace_ToLower rev_map)

lemma Split_no_sep: "sep \<notin> set s \<Longrightarrow> Split s sep = [s]"
  by (induction s) auto

lemma Split_append: "sep \<notin> set x \<Longrightarrow> Split (x @ sep # y) sep = x # Split y sep"
  by (induction x) auto

lemma length_Split: "length (Split s sep) = Suc (count_list s sep)"
  by (induction s) (auto split: list.splits)

lemma not_isSpace_hyphen: "\<not> isSpace CHR ''-''"
  by (simp add: isSpace_def)

lemma count_dropWhile: "\<not> P c \<Longrightarrow> count_list (dropWhile P s) c = count_list s c"
  by (induction s) auto

lemma count_TrimSpace: "count_list (TrimSpace s) CHR ''-'' = count_list s CHR ''-''"
  by (simp add: TrimSpace_def count_dropWhile not_isSpace_hyphen)

lemma dropWhile_same_length: "length (dropWhile P xs) = length xs \<Longrightarrow> dropWhile P xs = xs"
  using length_dropWhile_le[of P "tl xs"] by (cases xs) (auto split: if_splits)

lemma TrimSpace_fixed_front:
  assumes "TrimSpace x = x"
  shows "dropWhile isSpace x = x"
proof -
  have "length x = length (dropWhile isSpace (rev (dropWhile isSpace x)))"
    using assms by (metis TrimSpace_def length_rev)
  also have "\<dots> \<le> length (dropWhile isSpace x)"
    by (metis length_dropWhile_le length_rev)
  finally have "length (dropWhile isSpace x) = length x"
    using length_dropWhile_le[of isSpace x] by simp
  then show ?thesis
    by (rule dropWhile_same_length)
qed

lemma TrimSpace_fixed_back:
  assumes "TrimSpace x = x"
  shows "dropWhile isSpace (rev x) = rev x"
proof -
  have "rev (dropWhile isSpace (rev x)) = x"
    using assms TrimSpace_fixed_front[OF assms] by (simp add: TrimSpace_def)
  then show ?thesis
    by (metis rev_rev_ident)
qed

lemma dropWhile_keeps_append:
  "dropWhile P x = x \<Longrightarrow> \<not> P c \<Longrightarrow> dropWhile P (x @ c # y) = x @ c # y"
  using hd_dropWhile[of P x] by (cases x) (auto split: if_splits)

lemma TrimSpace_hyphenate:
  assumes "TrimSpace x = x" "TrimSpace y = y"
  shows "TrimSpace (hyphenate x y) = hyphenate x y"
proof -
  have x: "dropWhile isSpace x = x"
    using assms(1) by (rule TrimSpace_fixed_front)
  have y: "dropWhile isSpace (rev y) = rev y"
    using assms(2) by (rule TrimSpace_fixed_back)
  have fr: "dropWhile isSpace (x @ CHR ''-'' # y) = x @ CHR ''-'' # y"
    using x by (rule dropWhile_keeps_append) (rule not_isSpace_hyphen)
  have bk: "dropWhile isSpace (rev y @ CHR ''-'' # rev x) = rev y @ CHR ''-'' # rev x"
    using y by (rule dropWhile_keeps_append) (rule not_isSpace_hyphen)
  show ?thesis
    by (simp add: TrimSpace_def hyphenate_def fr bk)
qed

section \<open>The registry: Initialize\<close>

lemma set_support_tokens_nonempty: "vs \<noteq> [] \<or> m \<noteq> [] \<Longrightarrow> set_support_tokens vs m \<noteq> []"
  by (induction vs arbitrary: m) auto

lemma set_all_tokens_nonempty: "vs \<noteq> [] \<or> m \<noteq> [] \<Longrightarrow> set_all_tokens vs m \<noteq> []"
  by (induction vs m rule: set_all_tokens.induct) auto

lemma set_support_markets_nonempty: "vs \<noteq> [] \<or> m \<noteq> [] \<Longrightarrow> set_support_markets vs m \<noteq> []"
  by (induction vs arbitrary: m) auto

lemma Initialize_None: "(Initialize r ts ms = None) = (isl ts \<or> isl ms)"
  by (cases ts; cases ms) (simp_all add: Initialize_def Let_def)

lemma Initialize_nonempty:
  "Initialize r (Inr tokens) (Inr markets) = Some r' \<Longrightarrow> tokens \<noteq> [] \<Longrightarrow> markets \<noteq> [] \<Longrightarrow>
   SupportTokens r' \<noteq> [] \<and> AllTokens r' \<noteq> [] \<and> SupportMarkets r' \<noteq> []"
  by (auto simp: Initialize_def Let_def set_support_tokens_nonempty set_all_tokens_nonempty
      set_support_markets_nonempty)

text \<open>
  What \<open>Initialize\<close> does to each variable, whatever the state before: the three maps
  depend on the sources only, and the two lists keep what they held and grow.
\<close>

lemma Initialize_appends:
  assumes "Initialize r (Inr tokens) (Inr markets) = Some r'"
  shows "SupportTokens r' = set_support_tokens tokens []"
    and "AllTokens r' = set_all_tokens (SupportTokens r') []"
    and "SupportMarkets r' = set_support_markets markets []"
    and "AllMarkets r' = AllMarkets r @ market_symbols (SupportTokens r') (SupportMarkets r')"
    and "AllTokenPairs r' =
           AllTokenPairs r @ map snd (pairsMap (SupportMarkets r') (SupportTokens r'))"
  using assms by (auto simp: Initialize_def Let_def)

lemma sample_registry_eq:
  "sample_registry =
     \<lparr>SupportTokens = [(''lrc'', \<lparr>Protocol = ''0x01'', Symbol = ''lrc''\<rparr>),
                       (''weth'', \<lparr>Protocol = ''0x02'', Symbol = ''weth''\<rparr>)],
      AllTokens = [(''lrc'', \<lparr>Protocol = ''0x01'', Symbol = ''lrc''\<rparr>),
                   (''weth'', \<lparr>Protocol = ''0x02'', Symbol = ''weth''\<rparr>)],
      SupportMarkets = [(''weth'', \<lparr>Protocol = ''0x02'', Symbol = ''weth''\<rparr>)],
      AllMarkets = [''lrc-weth'', ''weth-weth''],
      AllTokenPairs =
        [\<lparr>TokenPair.TokenS = ''0x02'', TokenPair.TokenB = ''0x01''\<rparr>,
         \<lparr>TokenPair.TokenS = ''0x01'', TokenPair.TokenB = ''0x02''\<rparr>,
         \<lparr>TokenPair.TokenS = ''0x02'', TokenPair.TokenB = ''0x02''\<rparr>]\<rparr>"
  by (simp add: sample_registry_def Initialize_def nil_registry_def sample_token_def ConvertUp_def
      HexToAddress_def market_symbols_def pairsMap_def Let_def)

lemma Initialize_sample:
  "Initialize nil_registry
     (Inr [sample_token ''lrc'' ''0x01'', sample_token ''weth'' ''0x02''])
     (Inr [sample_token ''weth'' ''0x02'']) = Some sample_registry"
  by (simp add: sample_registry_def Initialize_def Let_def)

text \<open>
  Claim C1 says that a second \<open>Initialize\<close> leaves in \<open>AllTokens\<close>, \<open>AllMarkets\<close>
  and \<open>AllTokenPairs\<close> exactly the entries of the new sources. \<open>Initialize\<close> makes the
  three maps afresh and so replaces \<open>AllTokens\<close>, but it appends to \<open>AllMarkets\<close> and
  to \<open>AllTokenPairs\<close> without clearing them (lemma \<open>Initialize_appends\<close>). After a
  first call with the token lrc and the market weth and a second call with the token omg
  and the market dai, \<open>AllTokens\<close> holds omg alone, while \<open>AllMarkets\<close> still holds
  lrc-weth and \<open>AllTokenPairs\<close> the two pairs of lrc and weth.
\<close>

theorem Initialize_twice_keeps_old_entries:
  "(case Initialize nil_registry (Inr [sample_token ''lrc'' ''0x01''])
           (Inr [sample_token ''weth'' ''0x02'']) of
      None \<Rightarrow> False
    | Some r1 \<Rightarrow>
        (case Initialize r1 (Inr [sample_token ''omg'' ''0x03''])
                (Inr [sample_token ''dai'' ''0x04'']) of
           None \<Rightarrow> False
         | Some r2 \<Rightarrow>
             map fst (AllTokens r2) = [''omg''] \<and>
             AllMarkets r2 = [''lrc-weth'', ''omg-dai''] \<and>
             set (AllTokenPairs r2) =
               {\<lparr>TokenPair.TokenS = ''0x02'', TokenPair.TokenB = ''0x01''\<rparr>,
                \<lparr>TokenPair.TokenS = ''0x01'', TokenPair.TokenB = ''0x02''\<rparr>,
                \<lparr>TokenPair.TokenS = ''0x04'', TokenPair.TokenB = ''0x03''\<rparr>,
                \<lparr>TokenPair.TokenS = ''0x03'', TokenPair.TokenB = ''0x04''\<rparr>}))"
  by (simp add: Initialize_def nil_registry_def sample_token_def ConvertUp_def HexToAddress_def
      market_symbols_def pairsMap_def Let_def)

text \<open>
  Claim C4 says that \<open>Initialize\<close> aborts the process whenever the token source or the
  market source returns zero records, so that a successful \<open>Initialize\<close> leaves at least
  one token and one market registered. The two calls of \<^verbatim>\<open>log.Fatalf\<close> say as much in
  their texts (no token found, no base market found), but each is guarded by the error of
  its query alone and the length of the result is never tested (lemma
  \<open>Initialize_None\<close>). A source that returns no record and no error passes the guard:
  with two such sources \<open>Initialize\<close> returns with every table empty, and with one
  such source it returns with no token, or with no market, registered.
\<close>

theorem Initialize_empty_sources_do_not_abort:
  "Initialize nil_registry (Inr []) (Inr []) = Some nil_registry \<and>
   (case Initialize nil_registry (Inr []) (Inr [sample_token ''weth'' ''0x02'']) of
      None \<Rightarrow> False
    | Some r \<Rightarrow> SupportTokens r = [] \<and> AllTokens r = [] \<and> AllMarkets r = []) \<and>
   (case Initialize nil_registry (Inr [sample_token ''lrc'' ''0x01'']) (Inr []) of
      None \<Rightarrow> False
    | Some r \<Rightarrow> SupportMarkets r = [] \<and> AllMarkets r = [] \<and> AllTokenPairs r = [])"
  by (simp add: Initialize_def nil_registry_def sample_token_def ConvertUp_def HexToAddress_def
      market_symbols_def pairsMap_def Let_def)

section \<open>The registry: market identifiers\<close>

lemma WrapMarket_sample:
  "WrapMarket sample_registry ''weth'' ''lrc'' = (''lrc-weth'', None) \<and>
   WrapMarket sample_registry ''lrc'' ''weth'' = (''lrc-weth'', None) \<and>
   WrapMarket sample_registry ''WETH'' ''lrc'' = (''lrc-weth'', None)"
  by (simp add: sample_registry_eq WrapMarket_def IsSupportedMarket_def IsSupportedToken_def
      ToLower_def lower_char_def hyphenate_def)

lemma roles_sample:
  "IsSupportedMarket sample_registry ''weth'' \<and> IsSupportedToken sample_registry ''lrc'' \<and>
   \<not> IsSupportedMarket sample_registry ''lrc''"
  by (simp add: sample_registry_eq IsSupportedMarket_def IsSupportedToken_def)

lemma ToLower_sample: "ToLower ''weth'' = ''weth'' \<and> ToLower ''lrc'' = ''lrc''"
  by (simp add: ToLower_def lower_char_def)

lemma UnWrap_sample:
  "UnWrap ''lrc-weth'' = (''lrc'', ''weth'') \<and> UnWrap ''lrc-weth-omg'' = ([], [])"
  by (simp add: UnWrap_def TrimSpace_def isSpace_def ToLower_def lower_char_def)

text \<open>
  Claim C2, as stated, fails: for the market weth and the token lrc, \<open>WrapMarket\<close>
  returns lrc-weth, the token first, in either order of the arguments, and not weth-lrc.
\<close>

theorem WrapMarket_market_first_counterexample:
  "IsSupportedMarket sample_registry ''weth'' \<and> IsSupportedToken sample_registry ''lrc'' \<and>
   WrapMarket sample_registry ''weth'' ''lrc'' = (''lrc-weth'', None) \<and>
   WrapMarket sample_registry ''lrc'' ''weth'' = (''lrc-weth'', None) \<and>
   WrapMarket sample_registry ''weth'' ''lrc'' \<noteq> (''weth-lrc'', None)"
  using WrapMarket_sample roles_sample by simp

text \<open>
  Claim C2, amended. For a registered market M and a supported token T whose symbols are
  lower-case, \<open>WrapMarket\<close> of (M, T) succeeds and returns the token symbol, a hyphen
  and the market symbol. \<open>WrapMarket\<close> of (T, M) returns the same string, unless T is a
  registered market and M a supported token as well: then it returns the two symbols the
  other way round.
\<close>

theorem WrapMarket_token_first:
  "IsSupportedMarket r m \<Longrightarrow> IsSupportedToken r t \<Longrightarrow> ToLower m = m \<Longrightarrow> ToLower t = t \<Longrightarrow>
   WrapMarket r m t = (hyphenate t m, None) \<and>
   WrapMarket r t m =
     (if IsSupportedMarket r t \<and> IsSupportedToken r m then hyphenate m t else hyphenate t m, None)"
  by (simp add: WrapMarket_def)

theorem WrapMarket_token_first_witness:
  "WrapMarket sample_registry ''weth'' ''lrc'' = (hyphenate ''lrc'' ''weth'', None) \<and>
   WrapMarket sample_registry ''lrc'' ''weth'' = (hyphenate ''lrc'' ''weth'', None)"
  using WrapMarket_token_first[of sample_registry "''weth''" "''lrc''"] roles_sample ToLower_sample
  by simp

text \<open>
  The hypotheses of the amended claims are needed. In \<open>odd_registry\<close> the token stored
  under LRC is not found, since the lookup is by the lower-cased symbol; weth and dai are
  both a market and a token, and the result depends on the order of the arguments; and the
  identifier of the token lrc-v2 does not unwrap.
\<close>

lemma odd_registry_examples:
  "snd (WrapMarket odd_registry ''weth'' ''LRC'') \<noteq> None \<and>
   WrapMarket odd_registry ''weth'' ''dai'' = (''dai-weth'', None) \<and>
   WrapMarket odd_registry ''dai'' ''weth'' = (''weth-dai'', None) \<and>
   WrapMarket odd_registry ''weth'' ''lrc-v2'' = (''lrc-v2-weth'', None) \<and>
   UnWrap ''lrc-v2-weth'' = ([], [])"
  by (simp add: odd_registry_def Initialize_def nil_registry_def sample_token_def ConvertUp_def
      HexToAddress_def market_symbols_def pairsMap_def Let_def WrapMarket_def
      IsSupportedMarket_def IsSupportedToken_def ToLower_def lower_char_def hyphenate_def
      UnWrap_def TrimSpace_def isSpace_def)

lemma WrapMarket_cases:
  "WrapMarket r a b = (market, None) \<Longrightarrow>
   (IsSupportedMarket r (ToLower a) \<and> IsSupportedToken r (ToLower b) \<and>
      market = hyphenate (ToLower b) (ToLower a)) \<or>
   (\<not> (IsSupportedMarket r (ToLower a) \<and> IsSupportedToken r (ToLower b)) \<and>
      IsSupportedMarket r (ToLower b) \<and> IsSupportedToken r (ToLower a) \<and>
      market = hyphenate (ToLower a) (ToLower b))"
  by (auto simp: WrapMarket_def Let_def split: if_splits)

lemma UnWrap_hyphenate:
  assumes "CHR ''-'' \<notin> set x" "CHR ''-'' \<notin> set y" "TrimSpace x = x" "TrimSpace y = y"
  shows "UnWrap (hyphenate x y) = (ToLower x, ToLower y)"
proof -
  have "Split (hyphenate x y) CHR ''-'' = [x, y]"
    using assms(1,2) by (simp add: hyphenate_def Split_append Split_no_sep)
  then show ?thesis
    using assms(3,4) by (simp add: UnWrap_def TrimSpace_hyphenate)
qed

lemma UnWrap_no_single_hyphen: "count_list s CHR ''-'' \<noteq> 1 \<Longrightarrow> UnWrap s = ([], [])"
  by (simp add: UnWrap_def length_Split count_TrimSpace)

lemma UnWrap_WrapMarket:
  assumes w: "WrapMarket r a b = (market, None)"
    and h: "CHR ''-'' \<notin> set a" "CHR ''-'' \<notin> set b"
    and t: "TrimSpace a = a" "TrimSpace b = b"
  shows "UnWrap market =
           (if IsSupportedMarket r (ToLower a) \<and> IsSupportedToken r (ToLower b)
            then (ToLower b, ToLower a) else (ToLower a, ToLower b)) \<and>
         IsSupportedToken r (fst (UnWrap market)) \<and> IsSupportedMarket r (snd (UnWrap market))"
proof -
  have ha: "CHR ''-'' \<notin> set (ToLower a)" and hb: "CHR ''-'' \<notin> set (ToLower b)"
    using h by (simp_all add: hyphen_ToLower)
  have ta: "TrimSpace (ToLower a) = ToLower a" and tb: "TrimSpace (ToLower b) = ToLower b"
    using t by (simp_all add: TrimSpace_ToLower)
  have ab: "UnWrap (hyphenate (ToLower a) (ToLower b)) = (ToLower a, ToLower b)"
    using ha hb ta tb by (simp add: UnWrap_hyphenate ToLower_idem)
  have ba: "UnWrap (hyphenate (ToLower b) (ToLower a)) = (ToLower b, ToLower a)"
    using ha hb ta tb by (simp add: UnWrap_hyphenate ToLower_idem)
  from WrapMarket_cases[OF w] show ?thesis
    using ab ba by auto
qed

text \<open>
  Claim C5, as stated, fails in its first half: \<open>UnWrap\<close> of the identifier that
  \<open>WrapMarket\<close> builds for the market weth and the token lrc is (lrc, weth), the token
  symbol first, and not (weth, lrc).
\<close>

theorem UnWrap_market_first_counterexample:
  "IsSupportedMarket sample_registry ''weth'' \<and> IsSupportedToken sample_registry ''lrc'' \<and>
   \<not> IsSupportedMarket sample_registry ''lrc'' \<and>
   UnWrap (fst (WrapMarket sample_registry ''weth'' ''lrc'')) = (''lrc'', ''weth'') \<and>
   UnWrap (fst (WrapMarket sample_registry ''weth'' ''lrc'')) \<noteq> (''weth'', ''lrc'')"
  using WrapMarket_sample roles_sample UnWrap_sample by simp

text \<open>
  Claim C5, amended. For every pair (a, b) on which \<open>WrapMarket\<close> succeeds, where
  neither string contains a hyphen or begins or ends with white space, \<open>UnWrap\<close> of the
  result is the lower-cased pair with the token symbol first and the market symbol second.
  For every string that does not contain exactly one hyphen, \<open>UnWrap\<close> returns two empty
  strings.
\<close>

theorem UnWrap_WrapMarket_token_first:
  "(WrapMarket r a b = (market, None) \<and> CHR ''-'' \<notin> set a \<and> CHR ''-'' \<notin> set b \<and>
    TrimSpace a = a \<and> TrimSpace b = b \<longrightarrow>
      UnWrap market =
        (if IsSupportedMarket r (ToLower a) \<and> IsSupportedToken r (ToLower b)
         then (ToLower b, ToLower a) else (ToLower a, ToLower b)) \<and>
      IsSupportedToken r (fst (UnWrap market)) \<and> IsSupportedMarket r (snd (UnWrap market))) \<and>
   (count_list s CHR ''-'' \<noteq> 1 \<longrightarrow> UnWrap s = ([], []))"
  using UnWrap_WrapMarket[of r a b market] UnWrap_no_single_hyphen[of s] by blast

theorem UnWrap_WrapMarket_token_first_witness:
  "UnWrap ''lrc-weth'' = (ToLower ''lrc'', ToLower ''WETH'') \<and>
   IsSupportedToken sample_registry (fst (UnWrap ''lrc-weth'')) \<and>
   IsSupportedMarket sample_registry (snd (UnWrap ''lrc-weth'')) \<and>
   UnWrap ''lrc-weth-omg'' = ([], [])"
proof -
  have w: "WrapMarket sample_registry ''WETH'' ''lrc'' = (''lrc-weth'', None)"
    using WrapMarket_sample by simp
  have h: "CHR ''-'' \<notin> set ''WETH'' \<and> CHR ''-'' \<notin> set ''lrc'' \<and>
           TrimSpace ''WETH'' = ''WETH'' \<and> TrimSpace ''lrc'' = ''lrc''"
    by (simp add: TrimSpace_def isSpace_def)
  have m: "IsSupportedMarket sample_registry (ToLower ''WETH'') \<and>
           IsSupportedToken sample_registry (ToLower ''lrc'')"
    using roles_sample by (simp add: ToLower_def lower_char_def)
  have c: "count_list ''lrc-weth-omg'' CHR ''-'' \<noteq> 1"
    by simp
  show ?thesis
    using UnWrap_WrapMarket_token_first
      [of sample_registry "''WETH''" "''lrc''" "''lrc-weth''" "''lrc-weth-omg''"] w h m c
    by simp
qed

section \<open>Amounts and prices\<close>

lemma round_half_even_int: "round_half_even (of_int k) = k"
  by (simp add: round_half_even_def)

lemma round_half_even_bounds: "\<lfloor>x\<rfloor> \<le> round_half_even x \<and> round_half_even x \<le> \<lfloor>x\<rfloor> + 1"
  by (simp add: round_half_even_def Let_def)

lemma round_half_even_le_int: "x \<le> of_int k \<Longrightarrow> round_half_even x \<le> k"
proof -
  assume a: "x \<le> of_int k"
  show ?thesis
  proof (cases "x = of_int k")
    case True then show ?thesis by (simp add: round_half_even_int)
  next
    case False
    with a have "x < of_int k" by simp
    then have "\<lfloor>x\<rfloor> < k" by (simp add: floor_less_iff)
    then show ?thesis using round_half_even_bounds[of x] by simp
  qed
qed

lemma round_half_even_ge_int: "of_int k \<le> x \<Longrightarrow> k \<le> round_half_even x"
proof -
  assume "of_int k \<le> x"
  then have "k \<le> \<lfloor>x\<rfloor>" by (simp add: le_floor_iff)
  then show ?thesis using round_half_even_bounds[of x] by simp
qed

lemma round_half_even_mono: "a \<le> b \<Longrightarrow> round_half_even a \<le> round_half_even b"
proof -
  assume ab: "a \<le> b"
  have fl: "\<lfloor>a\<rfloor> \<le> \<lfloor>b\<rfloor>" using ab by (rule floor_mono)
  show ?thesis
  proof (cases "\<lfloor>a\<rfloor> = \<lfloor>b\<rfloor>")
    case True
    then show ?thesis using ab by (auto simp: round_half_even_def Let_def)
  next
    case False
    with fl have "\<lfloor>a\<rfloor> + 1 \<le> \<lfloor>b\<rfloor>" by simp
    then show ?thesis using round_half_even_bounds[of a] round_half_even_bounds[of b] by simp
  qed
qed

lemma round_half_even_minus: "round_half_even (- x) = - round_half_even x"
proof (cases "x = of_int \<lfloor>x\<rfloor>")
  case True
  then obtain k where "x = of_int k" by metis
  then show ?thesis by (simp add: round_half_even_int flip: of_int_minus)
next
  case False
  then have f: "\<lfloor>- x\<rfloor> = - \<lfloor>x\<rfloor> - 1"
    by (metis Ints_of_int ceiling_def floor_minus of_int_floor_cancel add.commute
        ceiling_altdef diff_minus_eq_add minus_diff_eq uminus_add_conv_diff)
  have lt: "of_int \<lfloor>x\<rfloor> < x" using False by (metis of_int_floor_le order_less_le)
  show ?thesis
    using lt f by (auto simp: round_half_even_def Let_def)
qed


lemma binade_bounds:
  assumes "0 < x"
  shows "2 powr of_int \<lfloor>log 2 x\<rfloor> \<le> x \<and> x < 2 powr (of_int \<lfloor>log 2 x\<rfloor> + 1)"
proof -
  have "2 powr of_int \<lfloor>log 2 x\<rfloor> \<le> 2 powr log 2 x"
    by (intro powr_mono) simp_all
  moreover have "2 powr log 2 x < 2 powr (of_int \<lfloor>log 2 x\<rfloor> + 1)"
    by (intro powr_less_mono) simp_all
  ultimately show ?thesis
    using assms by simp
qed

lemma scaled_bounds:
  assumes "0 < x"
  shows "2 ^ 52 \<le> x / 2 powr of_int (float64_exponent x) \<and>
         x / 2 powr of_int (float64_exponent x) < 2 ^ 53"
proof -
  let ?e = "\<lfloor>log 2 x\<rfloor>"
  have p: "(2::real) powr of_int (float64_exponent x) = 2 powr of_int ?e / 2 ^ 52"
    using assms by (simp add: float64_exponent_def powr_diff)
  have q: "(2::real) powr (of_int ?e + 1) = 2 * 2 powr of_int ?e"
    by (simp add: powr_add)
  have pos: "(0::real) < 2 powr of_int ?e"
    by simp
  show ?thesis
    using binade_bounds[OF assms] pos unfolding p q
    by (simp add: field_simps)
qed

lemma round_float64_bounds:
  assumes "0 < x"
  shows "2 powr of_int \<lfloor>log 2 x\<rfloor> \<le> round_float64 x \<and>
         round_float64 x \<le> 2 powr (of_int \<lfloor>log 2 x\<rfloor> + 1)"
proof -
  let ?e = "\<lfloor>log 2 x\<rfloor>"
  let ?p = "(2::real) powr of_int (float64_exponent x)"
  have p: "?p = (2::real) powr of_int ?e / 2 ^ 52"
    using assms by (simp add: float64_exponent_def powr_diff)
  have q: "(2::real) powr (of_int ?e + 1) = 2 * 2 powr of_int ?e"
    by (simp add: powr_add)
  have lo: "2 ^ 52 \<le> round_half_even (x / ?p)"
    using scaled_bounds[OF assms] round_half_even_ge_int[of "2 ^ 52" "x / ?p"] by simp
  have hi: "round_half_even (x / ?p) \<le> 2 ^ 53"
    using scaled_bounds[OF assms] round_half_even_le_int[of "x / ?p" "2 ^ 53"] by simp
  have lo': "(2::real) ^ 52 \<le> of_int (round_half_even (x / ?p))"
    using lo by (metis of_int_le_iff of_int_numeral of_int_power)
  have hi': "of_int (round_half_even (x / ?p)) \<le> (2::real) ^ 53"
    using hi by (metis of_int_le_iff of_int_numeral of_int_power)
  have r: "round_float64 x = of_int (round_half_even (x / ?p)) * ?p"
    using assms by (simp add: round_float64_def)
  have pos: "(0::real) < 2 powr of_int ?e"
    by simp
  have "2 ^ 52 * ?p \<le> of_int (round_half_even (x / ?p)) * ?p"
    using lo' by (intro mult_right_mono) simp_all
  moreover have "of_int (round_half_even (x / ?p)) * ?p \<le> 2 ^ 53 * ?p"
    using hi' by (intro mult_right_mono) simp_all
  ultimately show ?thesis
    unfolding r q unfolding p by simp
qed

lemma round_float64_mono_pos:
  assumes "0 < x" "x \<le> y"
  shows "round_float64 x \<le> round_float64 y"
proof -
  have y: "0 < y" using assms by simp
  have le: "\<lfloor>log 2 x\<rfloor> \<le> \<lfloor>log 2 y\<rfloor>"
    using assms by (intro floor_mono) simp
  show ?thesis
  proof (cases "\<lfloor>log 2 x\<rfloor> = \<lfloor>log 2 y\<rfloor>")
    case True
    then have e: "float64_exponent x = float64_exponent y"
      using assms y by (simp add: float64_exponent_def)
    let ?p = "(2::real) powr of_int (float64_exponent y)"
    have "x / ?p \<le> y / ?p"
      using assms by (simp add: divide_right_mono)
    then have "round_half_even (x / ?p) \<le> round_half_even (y / ?p)"
      by (rule round_half_even_mono)
    then have "of_int (round_half_even (x / ?p)) * ?p \<le> of_int (round_half_even (y / ?p)) * ?p"
      by (intro mult_right_mono) simp_all
    then show ?thesis
      using assms y e by (simp add: round_float64_def)
  next
    case False
    with le have "\<lfloor>log 2 x\<rfloor> + 1 \<le> \<lfloor>log 2 y\<rfloor>"
      by simp
    then have "(of_int \<lfloor>log 2 x\<rfloor> :: real) + 1 \<le> of_int \<lfloor>log 2 y\<rfloor>"
      by (metis of_int_1 of_int_add of_int_le_iff)
    then have "(2::real) powr (of_int \<lfloor>log 2 x\<rfloor> + 1) \<le> 2 powr of_int \<lfloor>log 2 y\<rfloor>"
      by (intro powr_mono) simp_all
    then show ?thesis
      using round_float64_bounds[OF assms(1)] round_float64_bounds[OF y] by linarith
  qed
qed

lemma round_float64_minus: "round_float64 (- x) = - round_float64 x"
  by (simp add: round_float64_def float64_exponent_def round_half_even_minus)

lemma round_float64_pos: "0 < x \<Longrightarrow> 0 < round_float64 x"
  using round_float64_bounds[of x] by (smt (verit) powr_gt_zero)

lemma round_float64_mono: "x \<le> y \<Longrightarrow> round_float64 x \<le> round_float64 y"
proof -
  assume xy: "x \<le> y"
  consider "0 < x" | "y < 0" | "x \<le> 0" "0 \<le> y" by linarith
  then show ?thesis
  proof cases
    case 1
    then show ?thesis using xy by (rule round_float64_mono_pos)
  next
    case 2
    then have "round_float64 (- y) \<le> round_float64 (- x)"
      using xy by (intro round_float64_mono_pos) simp_all
    then show ?thesis by (simp add: round_float64_minus)
  next
    case 3
    have "round_float64 x \<le> 0"
    proof (cases "x = 0")
      case True then show ?thesis by (simp add: round_float64_def)
    next
      case False
      with 3 have "0 < - x" by simp
      then have "0 < round_float64 (- x)" by (rule round_float64_pos)
      then show ?thesis by (simp add: round_float64_minus)
    qed
    moreover have "0 \<le> round_float64 y"
    proof (cases "y = 0")
      case True then show ?thesis by (simp add: round_float64_def)
    next
      case False
      with 3 have "0 < y" by simp
      then show ?thesis using round_float64_pos[of y] by simp
    qed
    ultimately show ?thesis by simp
  qed
qed


lemma floor_log2_int_mult:
  assumes "0 < x"
  shows "\<lfloor>log 2 (x * 2 ^ e)\<rfloor> = \<lfloor>log 2 x\<rfloor> + int e"
proof -
  have "log 2 (x * 2 ^ e) = log 2 x + real e"
    using assms by (simp add: log_mult log_nat_power)
  then show ?thesis
    by (metis floor_add_int of_int_of_nat_eq)
qed

lemma floor_log2_le:
  assumes "(1::real) \<le> x" "x \<le> 2 ^ n"
  shows "0 \<le> \<lfloor>log 2 x\<rfloor> \<and> \<lfloor>log 2 x\<rfloor> \<le> int n \<and> (\<lfloor>log 2 x\<rfloor> = int n \<longrightarrow> x = 2 ^ n)"
proof -
  have x: "0 < x" using assms by simp
  have "0 \<le> log 2 x" using assms(1) by simp
  then have lo: "0 \<le> \<lfloor>log 2 x\<rfloor>" by simp
  have "log 2 x \<le> log 2 (2 ^ n)"
    using x assms(2) by (intro log_mono) simp_all
  then have ln: "log 2 x \<le> real n" by (simp add: log_nat_power)
  then have "\<lfloor>log 2 x\<rfloor> \<le> \<lfloor>real n\<rfloor>" by (rule floor_mono)
  then have hi: "\<lfloor>log 2 x\<rfloor> \<le> int n" by simp
  have eq: "x = 2 ^ n" if "\<lfloor>log 2 x\<rfloor> = int n"
  proof -
    have "real n \<le> log 2 x" using that by (metis of_int_floor_le of_int_of_nat_eq)
    then have "log 2 x = real n" using ln by simp
    then have "x = 2 powr real n" using x by (metis powr_log_cancel one_less_numeral_iff semiring_norm(76) zero_less_numeral less_numeral_extra(4) not_numeral_less_one order_less_imp_not_eq2)
    then show ?thesis by (simp add: powr_realpow)
  qed
  show ?thesis using lo hi eq by blast
qed


lemma round_float64_of_grid:
  assumes "x \<noteq> 0" "x / 2 powr of_int (float64_exponent x) = of_int k"
  shows "round_float64 x = x"
proof -
  have "round_float64 x = of_int k * 2 powr of_int (float64_exponent x)"
    using assms by (simp add: round_float64_def round_half_even_int)
  also have "\<dots> = x / 2 powr of_int (float64_exponent x) * 2 powr of_int (float64_exponent x)"
    using assms(2) by simp
  also have "\<dots> = x"
    by simp
  finally show ?thesis .
qed

lemma round_float64_exact_pos:
  assumes m: "0 < m" "m \<le> 2 ^ 53"
  shows "round_float64 (of_int m * 2 ^ e) = of_int m * 2 ^ e"
proof -
  let ?x = "real_of_int m * 2 ^ e"
  let ?j = "\<lfloor>log 2 (real_of_int m)\<rfloor>"
  have m1: "(1::real) \<le> of_int m" using m by simp
  have mle: "real_of_int m \<le> 2 ^ 53"
    using m(2) by (metis of_int_le_iff of_int_numeral of_int_power)
  have x: "?x \<noteq> 0" using m by simp
  have j: "0 \<le> ?j \<and> ?j \<le> int 53 \<and> (?j = int 53 \<longrightarrow> real_of_int m = 2 ^ 53)"
    using floor_log2_le[OF m1 mle] .
  have fl: "\<lfloor>log 2 \<bar>?x\<bar>\<rfloor> = ?j + int e"
    using floor_log2_int_mult[of "real_of_int m" e] m by (simp add: abs_mult)
  have E: "float64_exponent ?x = ?j + int e - 52"
    by (simp add: float64_exponent_def fl)
  show ?thesis
  proof (cases "?j = 53")
    case True
    then have "?j = int 53" by (simp only: of_nat_numeral)
    with j have meq: "real_of_int m = 2 ^ 53" by blast
    have "float64_exponent ?x = int (Suc e)" using E True by simp
    then have p: "2 powr of_int (float64_exponent ?x) = (2::real) ^ Suc e"
      by (metis of_int_of_nat_eq powr_realpow zero_less_numeral)
    have "?x / 2 powr of_int (float64_exponent ?x) = ?x / 2 ^ Suc e"
      by (simp only: p)
    also have "\<dots> = of_int (2 ^ 52)"
      by (simp add: meq)
    finally show ?thesis by (rule round_float64_of_grid[OF x])
  next
    case False
    moreover from j have "?j \<le> int 53" by blast
    then have "?j \<le> 53" by (simp only: of_nat_numeral)
    ultimately have "?j \<le> 52" by linarith
    then obtain d where d: "52 - ?j = int d"
      by (metis diff_ge_0_iff_ge nonneg_int_cases)
    have "float64_exponent ?x = int e - int d" using E d by simp
    then have "2 powr of_int (float64_exponent ?x) = (2::real) powr (real e - real d)"
      by simp
    also have "\<dots> = 2 ^ e / 2 ^ d"
      by (simp add: powr_diff powr_realpow)
    finally have p: "2 powr of_int (float64_exponent ?x) = (2::real) ^ e / 2 ^ d" .
    have "?x / 2 powr of_int (float64_exponent ?x) = ?x / (2 ^ e / 2 ^ d)"
      by (simp only: p)
    also have "\<dots> = of_int (m * 2 ^ d)"
      by simp
    finally show ?thesis by (rule round_float64_of_grid[OF x])
  qed
qed

lemma round_float64_exact:
  assumes "\<bar>m\<bar> \<le> 2 ^ 53"
  shows "round_float64 (of_int m * 2 ^ e) = of_int m * 2 ^ e"
proof -
  consider "m = 0" | "0 < m" | "m < 0" by linarith
  then show ?thesis
  proof cases
    case 1
    then show ?thesis by (simp add: round_float64_def)
  next
    case 2
    then show ?thesis using assms by (intro round_float64_exact_pos) simp_all
  next
    case 3
    then have "round_float64 (of_int (- m) * 2 ^ e) = of_int (- m) * 2 ^ e"
      using assms by (intro round_float64_exact_pos) simp_all
    then show ?thesis
      using round_float64_minus[of "of_int m * 2 ^ e"] by simp
  qed
qed

lemma rounding_round_float64: "rounding round_float64"
  by (simp add: rounding_def mono_def round_float64_mono round_float64_exact)

lemma rounding_mono: "rounding rnd \<Longrightarrow> x \<le> y \<Longrightarrow> rnd x \<le> rnd y"
  by (simp add: rounding_def mono_def)

lemma rounding_int:
  assumes "rounding rnd" "\<bar>m\<bar> \<le> 2 ^ 53"
  shows "rnd (of_int m) = of_int m"
  using assms(1)[unfolded rounding_def, THEN conjunct2, rule_format, of m 0] assms(2) by simp

lemma rounding_zero: "rounding rnd \<Longrightarrow> rnd 0 = 0"
  using rounding_int[of rnd 0] by simp

lemma rounding_pow2:
  assumes "rounding rnd" "e \<le> 970"
  shows "rnd (2 ^ e) = 2 ^ e"
  using assms(1)[unfolded rounding_def, THEN conjunct2, rule_format, of 1 e] assms(2) by simp

lemma rnd_ge_pow2: "rounding rnd \<Longrightarrow> e \<le> 970 \<Longrightarrow> 2 ^ e \<le> x \<Longrightarrow> 2 ^ e \<le> rnd x"
  using rounding_mono[of rnd "2 ^ e" x] rounding_pow2[of rnd e] by simp

lemma rnd_le_pow2: "rounding rnd \<Longrightarrow> e \<le> 970 \<Longrightarrow> x \<le> 2 ^ e \<Longrightarrow> rnd x \<le> 2 ^ e"
  using rounding_mono[of rnd x "2 ^ e"] rounding_pow2[of rnd e] by simp

lemma rnd_ge_int: "rounding rnd \<Longrightarrow> \<bar>m\<bar> \<le> 2 ^ 53 \<Longrightarrow> of_int m \<le> x \<Longrightarrow> of_int m \<le> rnd x"
  using rounding_mono[of rnd "of_int m" x] rounding_int[of rnd m] by simp

lemma rnd_le_int: "rounding rnd \<Longrightarrow> \<bar>m\<bar> \<le> 2 ^ 53 \<Longrightarrow> x \<le> of_int m \<Longrightarrow> rnd x \<le> of_int m"
  using rounding_mono[of rnd x "of_int m"] rounding_int[of rnd m] by simp

lemma Int64_mod: "Int64 v = (v + 2 ^ 63) mod 2 ^ 64 - 2 ^ 63"
  by (simp add: Int64_def int_word_sint)

lemma Int64_fits: "- (2 ^ 63) \<le> v \<Longrightarrow> v < 2 ^ 63 \<Longrightarrow> Int64 v = v"
  by (simp add: Int64_mod)

lemma Int64_upper: "Int64 v < 2 ^ 63"
  unfolding Int64_def using sint_lt[of "word_of_int v :: 64 word"] by simp

lemma Int64_wrap:
  assumes "2 ^ 63 \<le> v" "v < 2 ^ 64"
  shows "Int64 v = v - 2 ^ 64"
proof -
  have "(v + 2 ^ 63) mod 2 ^ 64 = (v + 2 ^ 63 - 2 ^ 64) mod 2 ^ 64"
    by (simp only: minus_mod_self2)
  also have "\<dots> = v + 2 ^ 63 - 2 ^ 64"
    using assms by (intro mod_pos_pos_trivial) simp_all
  finally show ?thesis
    by (simp add: Int64_mod)
qed

lemma ByteToFloat_scaled:
  "ByteToFloat rnd decode amount = scaled_amount rnd (Int64 (decode amount))"
  by (simp add: ByteToFloat_def scaled_amount_def float64_of_int64_def)

lemma scaled_zero: "rounding rnd \<Longrightarrow> scaled_amount rnd 0 = 0"
  by (simp add: scaled_amount_def rounding_zero)

lemma CalculatePrice_not_None: "CalculatePrice rnd decode r amountS amountB s b \<noteq> None"
  by (simp add: CalculatePrice_def Let_def fdiv_def)

lemma CalculatePrice_zero:
  "rounding rnd \<Longrightarrow> decode amountS = 0 \<or> decode amountB = 0 \<Longrightarrow>
   CalculatePrice rnd decode r amountS amountB s b = Some 0"
  by (auto simp: CalculatePrice_def Let_def ByteToFloat_scaled scaled_zero Int64_def)

lemma CalculatePrice_2_64:
  "rounding rnd \<Longrightarrow> decode amountS = 2 ^ 64 \<Longrightarrow>
   CalculatePrice rnd decode r amountS amountB s b = Some 0"
  by (simp add: CalculatePrice_def Let_def ByteToFloat_scaled scaled_zero Int64_def)

lemma scaled_ge_9:
  assumes r: "rounding rnd" and a: "2 ^ 63 \<le> a"
  shows "9 \<le> scaled_amount rnd a"
proof -
  have "(2::real) ^ 63 \<le> of_int a"
    using a by (metis of_int_le_iff of_int_numeral of_int_power)
  then have "2 ^ 63 \<le> rnd (of_int a)"
    by (intro rnd_ge_pow2[OF r]) simp_all
  then have "of_int 9 \<le> rnd (of_int a) / weiToEther"
    by (simp add: weiToEther_def field_simps)
  then have "of_int 9 \<le> rnd (rnd (of_int a) / weiToEther)"
    by (intro rnd_ge_int[OF r]) simp_all
  then show ?thesis
    by (simp add: scaled_amount_def)
qed

lemma scaled_ge_18:
  assumes r: "rounding rnd" and a: "2 ^ 64 \<le> a"
  shows "18 \<le> scaled_amount rnd a"
proof -
  have "(2::real) ^ 64 \<le> of_int a"
    using a by (metis of_int_le_iff of_int_numeral of_int_power)
  then have "2 ^ 64 \<le> rnd (of_int a)"
    by (intro rnd_ge_pow2[OF r]) simp_all
  then have "of_int 18 \<le> rnd (of_int a) / weiToEther"
    by (simp add: weiToEther_def field_simps)
  then have "of_int 18 \<le> rnd (rnd (of_int a) / weiToEther)"
    by (intro rnd_ge_int[OF r]) simp_all
  then show ?thesis
    by (simp add: scaled_amount_def)
qed

lemma scaled_le_16:
  assumes r: "rounding rnd" and v: "v \<le> 2 ^ 63"
  shows "scaled_amount rnd v \<le> 16"
proof -
  have "of_int v \<le> (2::real) ^ 63"
    using v by (metis of_int_le_iff of_int_numeral of_int_power)
  then have "rnd (of_int v) \<le> 2 ^ 63"
    by (intro rnd_le_pow2[OF r]) simp_all
  then have "rnd (of_int v) / weiToEther \<le> of_int 16"
    by (simp add: weiToEther_def field_simps)
  then have "rnd (rnd (of_int v) / weiToEther) \<le> of_int 16"
    by (intro rnd_le_int[OF r]) simp_all
  then show ?thesis
    by (simp add: scaled_amount_def)
qed

lemma scaled_le_0:
  assumes r: "rounding rnd" and v: "v \<le> 0"
  shows "scaled_amount rnd v \<le> 0"
proof -
  have "rnd (of_int v) \<le> of_int 0"
    using v by (intro rnd_le_int[OF r]) simp_all
  then have "rnd (of_int v) / weiToEther \<le> of_int 0"
    by (simp add: weiToEther_def field_simps)
  then have "rnd (rnd (of_int v) / weiToEther) \<le> of_int 0"
    by (intro rnd_le_int[OF r]) simp_all
  then show ?thesis
    by (simp add: scaled_amount_def)
qed

lemma exact_ge_9:
  assumes a: "2 ^ 63 \<le> a"
  shows "9 \<le> of_int a / weiToEther"
proof -
  have "(2::real) ^ 63 \<le> of_int a"
    using a by (metis of_int_le_iff of_int_numeral of_int_power)
  then show ?thesis
    by (simp add: weiToEther_def field_simps)
qed

lemma exact_ge_18:
  assumes a: "2 ^ 64 \<le> a"
  shows "18 \<le> of_int a / weiToEther"
proof -
  have "(2::real) ^ 64 \<le> of_int a"
    using a by (metis of_int_le_iff of_int_numeral of_int_power)
  then show ?thesis
    by (simp add: weiToEther_def field_simps)
qed

lemma ByteToFloat_below:
  assumes r: "rounding rnd" and big: "2 ^ 63 \<le> decode amount"
  shows "ByteToFloat rnd decode amount < scaled_amount rnd (decode amount) \<and>
         ByteToFloat rnd decode amount < of_int (decode amount) / weiToEther"
proof (cases "decode amount < 2 ^ 64")
  case True
  have "Int64 (decode amount) \<le> 0"
    using Int64_wrap[OF big True] True by simp
  then have "scaled_amount rnd (Int64 (decode amount)) \<le> 0"
    by (rule scaled_le_0[OF r])
  then show ?thesis
    using scaled_ge_9[OF r big] exact_ge_9[OF big] by (simp add: ByteToFloat_scaled)
next
  case False
  then have a: "2 ^ 64 \<le> decode amount"
    by simp
  have "Int64 (decode amount) \<le> 2 ^ 63"
    using Int64_upper[of "decode amount"] by simp
  then have "scaled_amount rnd (Int64 (decode amount)) \<le> 16"
    by (rule scaled_le_16[OF r])
  then show ?thesis
    using scaled_ge_18[OF r a] exact_ge_18[OF a] by (simp add: ByteToFloat_scaled)
qed

lemma CalculatePrice_fits:
  assumes "- (2 ^ 63) \<le> decode amountS" "decode amountS < 2 ^ 63"
    "- (2 ^ 63) \<le> decode amountB" "decode amountB < 2 ^ 63"
  shows "CalculatePrice rnd decode r amountS amountB s b =
         price_of_amounts rnd r (decode amountS) (decode amountB) s"
  using assms by (simp add: CalculatePrice_def price_of_amounts_def ByteToFloat_scaled Int64_fits)

lemma price_2_64:
  assumes r: "rounding rnd"
  shows "price_of_amounts rnd reg (2 ^ 64) (2 ^ 64) s = Some 1"
proof -
  have "18 \<le> scaled_amount rnd (2 ^ 64)"
    by (rule scaled_ge_18[OF r]) simp
  then have "scaled_amount rnd (2 ^ 64) \<noteq> 0"
    by simp
  then show ?thesis
    using rounding_int[OF r, of 1] by (simp add: price_of_amounts_def fdiv_def Let_def)
qed

lemma decimal_samples:
  "decimal ''0'' = 0 \<and> decimal ''5'' = 5 \<and>
   decimal ''2000000000000000000'' = 2000000000000000000 \<and>
   decimal ''6000000000000000000'' = 6000000000000000000 \<and>
   decimal ''9223372036854775808'' = 9223372036854775808 \<and>
   decimal ''18446744073709551616'' = 18446744073709551616"
  by (simp add: decimal_def digit_val_def)

lemma round_float64_samples:
  "round_float64 2000000000000000000 = 2000000000000000000 \<and>
   round_float64 6000000000000000000 = 6000000000000000000 \<and>
   round_float64 2 = 2 \<and> round_float64 6 = 6 \<and> round_float64 3 = 3 \<and>
   round_float64 0 = 0 \<and> round_float64 1 = 1"
  using round_float64_exact[of 3814697265625 19] round_float64_exact[of 11444091796875 19]
    round_float64_exact[of 2 0] round_float64_exact[of 6 0] round_float64_exact[of 3 0]
    round_float64_exact[of 0 0] round_float64_exact[of 1 0]
  by simp

lemma IsBuy_sample: "IsBuy sample_registry ''lrc''"
  by (simp add: IsBuy_def IsAddress_def sample_registry_eq)

text \<open>
  Claim C8. \<open>CalculatePrice\<close> returns exactly 0 whenever one of the two amounts decodes
  to the integer 0, whatever the other amount and the two symbols are; and the division
  it performs otherwise never has a zero divisor: no call of \<open>CalculatePrice\<close> ends in
  \<open>None\<close>.
\<close>

theorem CalculatePrice_zero_amount:
  "(rounding rnd \<and> (decode amountS = 0 \<or> decode amountB = 0) \<longrightarrow>
      CalculatePrice rnd decode r amountS amountB s b = Some 0) \<and>
   CalculatePrice rnd' decode' r' amountS' amountB' s' b' \<noteq> None"
  using CalculatePrice_zero[of rnd decode amountS amountB r s b] CalculatePrice_not_None
  by blast

theorem CalculatePrice_zero_amount_witness:
  "CalculatePrice round_float64 decimal sample_registry ''0'' ''6000000000000000000'' ''lrc''
     ''weth'' = Some 0 \<and>
   CalculatePrice round_float64 decimal sample_registry ''5'' ''0'' ''weth'' ''lrc'' = Some 0"
  using CalculatePrice_zero_amount
      [of round_float64 decimal "''0''" "''6000000000000000000''" sample_registry "''lrc''"
          "''weth''"]
    CalculatePrice_zero_amount
      [of round_float64 decimal "''5''" "''0''" sample_registry "''weth''" "''lrc''"]
    rounding_round_float64 decimal_samples
  by simp

text \<open>
  Claim C10. \<open>ByteToFloat\<close> cuts the decoded integer to 64 signed bits before it
  divides by \<open>10 ^ 18\<close>. For an amount that decodes to an integer of 64 signed bits it
  returns that integer divided by \<open>10 ^ 18\<close> (in float64 arithmetic:
  \<open>scaled_amount\<close>). For an amount of \<open>2 ^ 63\<close> base units or more the value it returns
  is not the scaled amount: it is smaller than the float64 value of the scaled amount, and
  smaller than the exact quotient. So \<open>CalculatePrice\<close> is the price of the two amounts
  when both fit in 64 signed bits, and without that need not be: for two amounts of
  \<open>2 ^ 64\<close> base units it returns 0, where the price of the amounts is 1.
\<close>

theorem ByteToFloat_cuts_to_int64:
  "ByteToFloat rnd decode amount = scaled_amount rnd (Int64 (decode amount)) \<and>
   (- (2 ^ 63) \<le> decode fit \<and> decode fit < 2 ^ 63 \<longrightarrow>
      ByteToFloat rnd decode fit = scaled_amount rnd (decode fit)) \<and>
   (rounding rnd \<and> 2 ^ 63 \<le> decode big \<longrightarrow>
      ByteToFloat rnd decode big < scaled_amount rnd (decode big) \<and>
      ByteToFloat rnd decode big < of_int (decode big) / weiToEther) \<and>
   (- (2 ^ 63) \<le> decode amountS \<and> decode amountS < 2 ^ 63 \<and>
    - (2 ^ 63) \<le> decode amountB \<and> decode amountB < 2 ^ 63 \<longrightarrow>
      CalculatePrice rnd decode r amountS amountB s b =
        price_of_amounts rnd r (decode amountS) (decode amountB) s) \<and>
   (rounding rnd \<and> decode bigS = 2 ^ 64 \<and> decode bigB = 2 ^ 64 \<longrightarrow>
      CalculatePrice rnd decode r bigS bigB s b = Some 0 \<and>
      price_of_amounts rnd r (decode bigS) (decode bigB) s = Some 1)"
proof -
  have 1: "ByteToFloat rnd decode amount = scaled_amount rnd (Int64 (decode amount))"
    by (rule ByteToFloat_scaled)
  have 2: "ByteToFloat rnd decode fit = scaled_amount rnd (decode fit)"
    if "- (2 ^ 63) \<le> decode fit" "decode fit < 2 ^ 63"
    using that by (simp add: ByteToFloat_scaled Int64_fits)
  have 3: "ByteToFloat rnd decode big < scaled_amount rnd (decode big) \<and>
           ByteToFloat rnd decode big < of_int (decode big) / weiToEther"
    if "rounding rnd" "2 ^ 63 \<le> decode big"
    using that by (rule ByteToFloat_below)
  have 4: "CalculatePrice rnd decode r amountS amountB s b =
             price_of_amounts rnd r (decode amountS) (decode amountB) s"
    if "- (2 ^ 63) \<le> decode amountS" "decode amountS < 2 ^ 63"
       "- (2 ^ 63) \<le> decode amountB" "decode amountB < 2 ^ 63"
    using that by (rule CalculatePrice_fits)
  have 5: "CalculatePrice rnd decode r bigS bigB s b = Some 0 \<and>
           price_of_amounts rnd r (decode bigS) (decode bigB) s = Some 1"
    if "rounding rnd" "decode bigS = 2 ^ 64" "decode bigB = 2 ^ 64"
    using that CalculatePrice_2_64[of rnd decode bigS r bigB s b] price_2_64[of rnd r s]
    by simp
  show ?thesis
    using 1 2 3 4 5 by blast
qed

theorem ByteToFloat_cuts_to_int64_witness:
  "ByteToFloat round_float64 decimal ''2000000000000000000'' = 2 \<and>
   ByteToFloat round_float64 decimal ''9223372036854775808'' < 9223372036854775808 / weiToEther \<and>
   CalculatePrice round_float64 decimal sample_registry ''2000000000000000000''
     ''6000000000000000000'' ''lrc'' ''weth'' = Some 3 \<and>
   CalculatePrice round_float64 decimal sample_registry ''18446744073709551616''
     ''18446744073709551616'' ''lrc'' ''weth'' = Some 0 \<and>
   price_of_amounts round_float64 sample_registry 18446744073709551616 18446744073709551616
     ''lrc'' = Some 1"
  using ByteToFloat_cuts_to_int64
      [of round_float64 decimal "''2000000000000000000''" "''2000000000000000000''"
          "''9223372036854775808''" "''2000000000000000000''" "''6000000000000000000''"
          sample_registry "''lrc''" "''weth''" "''18446744073709551616''"
          "''18446744073709551616''"]
    rounding_round_float64 decimal_samples IsBuy_sample round_float64_samples
  by (simp add: scaled_amount_def price_of_amounts_def weiToEther_def fdiv_def)

end
